theory Spec2Isabelle
  imports Complex_Main "HOL-Library.Sublist"
begin

section \<open>FloralID-Pro: data model\<close>

text \<open>
  \<^verbatim>\<open>src/types.ts\<close>. Field names that occur in more than one interface, or that
  clash with a HOL constant, carry a suffix: \<open>_p\<close> for \<open>PlantProfile\<close>, \<open>_m\<close> for an
  entry of the profile manifest, \<open>_a\<close> for the \<open>id\<close> of a \<open>PlantAnalysis\<close>.
\<close>

record PlantProfile =
  id_p :: string
  name_p :: string
  scientificName_p :: string
  isInvasive_p :: bool
  images :: "string list"
  description_p :: string
  dateCreated :: int

subsection \<open>JSON values\<close>

text \<open>
  \<open>analyzePlantWithContext\<close> returns \<open>JSON.parse(text)\<close> unchanged, typed
  \<open>AnalysisResult\<close> only at compile time. At run time the value is whatever JSON the
  service sent, so it is modelled as a JSON value; a property that is not there reads as
  \<open>undefined\<close>, here \<open>None\<close>. A number is kept as its literal. A string is kept
  in UTF-8, as all text here is: a character beyond ASCII is several \<open>char\<close>s.
\<close>

datatype json =
    JNull
  | JBool bool
  | JNumber string
  | JString string
  | JArray "json list"
  | JObject "(string \<times> json) list"

text \<open>
  Property read \<open>v.k\<close> on a parsed value that is not \<open>null\<close>: an object yields its own
  property (the last one, where the text repeats a key), anything else has none of the
  properties the source reads. On \<open>null\<close> the read throws; the callers test for it.
\<close>

fun get_prop :: "json \<Rightarrow> string \<Rightarrow> json option" where
  "get_prop (JObject kvs) k = map_of (rev kvs) k"
| "get_prop _ k = None"

text \<open>
  The fields of a \<open>PlantAnalysis\<close> that \<open>captureAndAnalyze\<close> copies from the parsed
  response hold what the response held, or nothing.
\<close>

record PlantAnalysis =
  id_a :: string
  name :: "json option"
  scientificName :: "json option"
  isInvasive :: "json option"
  confidence :: "json option"
  timestamp :: int
  analysisTime :: real
  coordinates :: "(real \<times> real) option"
  imageUrl :: string
  matchedProfileId :: "json option"
  isFavorite :: "bool option"
  isIncorrect :: "bool option"

text \<open>
  The two flags are optional (\<open>isFavorite?: boolean\<close>): \<open>None\<close> is the absent
  property. Every reader in the repository takes them by truthiness
  (\<open>item.isFavorite ? ... : ...\<close>, \<open>!item.isFavorite\<close>).
\<close>

definition js_truthy :: "bool option \<Rightarrow> bool" where
  "js_truthy b = (b = Some True)"

subsection \<open>The platform's \<open>JSON.parse\<close>\<close>

text \<open>
  A recursive-descent reader of the JSON grammar (ECMA-404) on text in UTF-8:
  insignificant white space, the three literals, numbers, strings with their escapes,
  arrays, objects. \<open>None\<close> stands for the \<open>SyntaxError\<close> that \<open>JSON.parse\<close> throws.
  An escape \<open>\uXXXX\<close> yields the UTF-8 bytes of its code unit; a high surrogate
  followed by the escape of a low surrogate yields the four bytes of the code point the
  pair denotes, and a surrogate on its own the three bytes of its own value, so that every
  escape is accepted and different strings stay different.
\<close>

definition is_ws :: "char \<Rightarrow> bool" where
  "is_ws c = (c = CHR 0x20 \<or> c = CHR 0x09 \<or> c = CHR 0x0A \<or> c = CHR 0x0D)"

definition skip_ws :: "string \<Rightarrow> string" where
  "skip_ws cs = dropWhile is_ws cs"

definition is_digit :: "char \<Rightarrow> bool" where
  "is_digit c = ((48::nat) \<le> of_char c \<and> of_char c \<le> (57::nat))"

definition hex_digit :: "char \<Rightarrow> int option" where
  "hex_digit c =
     (let n = (of_char c :: int) in
      if 48 \<le> n \<and> n \<le> 57 then Some (n - 48)
      else if 65 \<le> n \<and> n \<le> 70 then Some (n - 55)
      else if 97 \<le> n \<and> n \<le> 102 then Some (n - 87)
      else None)"

definition hex4 :: "char \<Rightarrow> char \<Rightarrow> char \<Rightarrow> char \<Rightarrow> int option" where
  "hex4 a b c d =
     (case (hex_digit a, hex_digit b, hex_digit c, hex_digit d) of
        (Some w, Some x, Some y, Some z) \<Rightarrow> Some (((w * 16 + x) * 16 + y) * 16 + z)
      | _ \<Rightarrow> None)"

definition unescape :: "char \<Rightarrow> char option" where
  "unescape e =
     (if e = CHR 0x22 then Some (CHR 0x22)
      else if e = CHR 0x5C then Some (CHR 0x5C)
      else if e = CHR ''/'' then Some (CHR ''/'')
      else if e = CHR ''b'' then Some (CHR 0x08)
      else if e = CHR ''f'' then Some (CHR 0x0C)
      else if e = CHR ''n'' then Some (CHR 0x0A)
      else if e = CHR ''r'' then Some (CHR 0x0D)
      else if e = CHR ''t'' then Some (CHR 0x09)
      else None)"

definition utf8 :: "int \<Rightarrow> string" where
  "utf8 n =
     (if n < 128 then [char_of n]
      else if n < 2048 then [char_of (192 + n div 64), char_of (128 + n mod 64)]
      else if n < 65536 then
        [char_of (224 + n div 4096), char_of (128 + n div 64 mod 64), char_of (128 + n mod 64)]
      else
        [char_of (240 + n div 262144), char_of (128 + n div 4096 mod 64),
         char_of (128 + n div 64 mod 64), char_of (128 + n mod 64)])"

text \<open>The low surrogate that the text starts with as an escape, if it does.\<close>

definition low_surrogate :: "string \<Rightarrow> int option" where
  "low_surrogate cs =
     (case cs of
        b # u # l1 # l2 # l3 # l4 # r \<Rightarrow>
          if b = CHR 0x5C \<and> u = CHR ''u'' then
            (case hex4 l1 l2 l3 l4 of
               Some m \<Rightarrow> if 56320 \<le> m \<and> m < 57344 then Some m else None
             | None \<Rightarrow> None)
          else None
      | _ \<Rightarrow> None)"

text \<open>The characters of a string after its opening quote, up to the closing one.\<close>

fun lex_string :: "string \<Rightarrow> string \<Rightarrow> (string \<times> string) option" where
  "lex_string acc [] = None"
| "lex_string acc [c] = (if c = CHR 0x22 then Some (rev acc, []) else None)"
| "lex_string acc (c # e # cs) =
     (if c = CHR 0x22 then Some (rev acc, e # cs)
      else if c = CHR 0x5C then
        (if e = CHR ''u'' then
           (case cs of
              h1 # h2 # h3 # h4 # r \<Rightarrow>
                (case hex4 h1 h2 h3 h4 of
                   None \<Rightarrow> None
                 | Some n \<Rightarrow>
                     (case (if 55296 \<le> n \<and> n < 56320 then low_surrogate r else None) of
                        Some m \<Rightarrow>
                          lex_string
                            (rev (utf8 (65536 + (n - 55296) * 1024 + (m - 56320))) @ acc)
                            (drop 6 r)
                      | None \<Rightarrow> lex_string (rev (utf8 n) @ acc) r))
            | _ \<Rightarrow> None)
         else (case unescape e of
                 Some x \<Rightarrow> lex_string (x # acc) cs
               | None \<Rightarrow> None))
      else if (of_char c :: nat) < 32 then None
      else lex_string (c # acc) (e # cs))"

text \<open>A number: \<open>-? (0 | [1-9][0-9]*) (. [0-9]+)? ([eE] [+-]? [0-9]+)?\<close>.\<close>

definition lex_int :: "string \<Rightarrow> (string \<times> string) option" where
  "lex_int cs =
     (let ds = takeWhile is_digit cs; r = dropWhile is_digit cs in
      if ds = [] \<or> (hd ds = CHR ''0'' \<and> tl ds \<noteq> []) then None else Some (ds, r))"

definition lex_frac :: "string \<Rightarrow> (string \<times> string) option" where
  "lex_frac cs =
     (case cs of
        c # r \<Rightarrow>
          if c = CHR ''.'' then
            (let ds = takeWhile is_digit r in
             if ds = [] then None else Some (c # ds, dropWhile is_digit r))
          else Some ([], cs)
      | [] \<Rightarrow> Some ([], cs))"

definition lex_exp :: "string \<Rightarrow> (string \<times> string) option" where
  "lex_exp cs =
     (case cs of
        c # r \<Rightarrow>
          if c = CHR ''e'' \<or> c = CHR ''E'' then
            (let s = (case r of x # _ \<Rightarrow> if x = CHR ''+'' \<or> x = CHR ''-'' then [x] else []
                               | [] \<Rightarrow> []);
                 r' = drop (length s) r;
                 ds = takeWhile is_digit r' in
             if ds = [] then None else Some (c # s @ ds, dropWhile is_digit r'))
          else Some ([], cs)
      | [] \<Rightarrow> Some ([], cs))"

definition lex_number :: "string \<Rightarrow> (string \<times> string) option" where
  "lex_number cs =
     (let s = (case cs of c # _ \<Rightarrow> if c = CHR ''-'' then [c] else [] | [] \<Rightarrow> []) in
      case lex_int (drop (length s) cs) of
        None \<Rightarrow> None
      | Some (ip, r1) \<Rightarrow>
          (case lex_frac r1 of
             None \<Rightarrow> None
           | Some (fp, r2) \<Rightarrow>
               (case lex_exp r2 of
                  None \<Rightarrow> None
                | Some (ep, r3) \<Rightarrow> Some (s @ ip @ fp @ ep, r3))))"

definition lex_literal :: "string \<Rightarrow> string \<Rightarrow> string option" where
  "lex_literal w cs = (if take (length w) cs = w then Some (drop (length w) cs) else None)"

text \<open>
  One value, the elements of an array after \<open>[\<close>, the members of an object after
  \<open>{\<close>. The first argument bounds the number of nested calls; \<open>JSON_parse\<close> starts it
  above twice the length of the text, which no call chain reaches, since two calls in a
  row consume a character.
\<close>

fun parse_value :: "nat \<Rightarrow> string \<Rightarrow> (json \<times> string) option"
  and parse_elements :: "nat \<Rightarrow> json list \<Rightarrow> string \<Rightarrow> (json list \<times> string) option"
  and parse_members ::
    "nat \<Rightarrow> (string \<times> json) list \<Rightarrow> string \<Rightarrow> ((string \<times> json) list \<times> string) option"
where
  "parse_value 0 cs = None"
| "parse_value (Suc n) [] = None"
| "parse_value (Suc n) (c # r) =
     (if c = CHR ''{'' then
        (case skip_ws r of
           [] \<Rightarrow> None
         | d # r' \<Rightarrow>
             if d = CHR ''}'' then Some (JObject [], r')
             else map_option (apfst JObject) (parse_members n [] (d # r')))
      else if c = CHR ''['' then
        (case skip_ws r of
           [] \<Rightarrow> None
         | d # r' \<Rightarrow>
             if d = CHR '']'' then Some (JArray [], r')
             else map_option (apfst JArray) (parse_elements n [] (d # r')))
      else if c = CHR 0x22 then map_option (apfst JString) (lex_string [] r)
      else if c = CHR ''n'' then map_option (Pair JNull) (lex_literal ''null'' (c # r))
      else if c = CHR ''t'' then map_option (Pair (JBool True)) (lex_literal ''true'' (c # r))
      else if c = CHR ''f'' then map_option (Pair (JBool False)) (lex_literal ''false'' (c # r))
      else map_option (apfst JNumber) (lex_number (c # r)))"
| "parse_elements 0 acc cs = None"
| "parse_elements (Suc n) acc cs =
     (case parse_value n (skip_ws cs) of
        None \<Rightarrow> None
      | Some (v, r) \<Rightarrow>
          (case skip_ws r of
             [] \<Rightarrow> None
           | d # r' \<Rightarrow>
               if d = CHR '','' then parse_elements n (v # acc) r'
               else if d = CHR '']'' then Some (rev (v # acc), r')
               else None))"
| "parse_members 0 acc cs = None"
| "parse_members (Suc n) acc cs =
     (case skip_ws cs of
        [] \<Rightarrow> None
      | q # r \<Rightarrow>
          if q \<noteq> CHR 0x22 then None
          else
            (case lex_string [] r of
               None \<Rightarrow> None
             | Some (k, r1) \<Rightarrow>
                 (case skip_ws r1 of
                    [] \<Rightarrow> None
                  | c # r2 \<Rightarrow>
                      if c \<noteq> CHR '':'' then None
                      else
                        (case parse_value n (skip_ws r2) of
                           None \<Rightarrow> None
                         | Some (v, r3) \<Rightarrow>
                             (case skip_ws r3 of
                                [] \<Rightarrow> None
                              | d # r4 \<Rightarrow>
                                  if d = CHR '','' then parse_members n ((k, v) # acc) r4
                                  else if d = CHR ''}'' then Some (rev ((k, v) # acc), r4)
                                  else None)))))"

definition JSON_parse :: "string \<Rightarrow> json option" where
  "JSON_parse text =
     (case parse_value (2 * length text + 2) (skip_ws text) of
        None \<Rightarrow> None
      | Some (v, r) \<Rightarrow> if skip_ws r = [] then Some v else None)"

section \<open>The classification client (\<^verbatim>\<open>services/geminiService\<close>)\<close>

record ManifestEntry =
  id_m :: string
  name_m :: string
  scientificName_m :: string
  isInvasive_m :: bool
  imageCount :: nat

definition profileManifest :: "PlantProfile list \<Rightarrow> ManifestEntry list" where
  "profileManifest profiles =
     map (\<lambda>p. \<lparr>id_m = id_p p, name_m = name_p p, scientificName_m = scientificName_p p,
               isInvasive_m = isInvasive_p p, imageCount = length (images p)\<rparr>) profiles"

text \<open>
  The request handed to \<open>ai.models.generateContent\<close>: the model name, the inline image
  part, and the text part. The text part is a fixed instruction around
  \<open>JSON.stringify(profileManifest, null, 2)\<close>, so it is kept as the manifest it prints;
  \<open>config\<close> is the constant \<open>PLANT_SCHEMA\<close>.
\<close>

record GenerateContentRequest =
  model :: string
  mimeType :: string
  inlineData :: string
  manifest :: "ManifestEntry list"

text \<open>\<open>base64Image.split(',')[1] || base64Image\<close>\<close>

definition imageData :: "string \<Rightarrow> string" where
  "imageData base64Image =
     (case dropWhile (\<lambda>c. c \<noteq> CHR '','') base64Image of
        [] \<Rightarrow> base64Image
      | _ # r \<Rightarrow>
          (let part = takeWhile (\<lambda>c. c \<noteq> CHR '','') r in
           if part = [] then base64Image else part))"

definition request :: "string \<Rightarrow> PlantProfile list \<Rightarrow> GenerateContentRequest" where
  "request base64Image profiles =
     \<lparr>model = ''gemini-3-flash-preview'', mimeType = ''image/jpeg'',
      inlineData = imageData base64Image, manifest = profileManifest profiles\<rparr>"

subsection \<open>Effects, clock and environment\<close>

text \<open>
  Every call the handlers make on a collaborator is one event of the trace, oldest first:
  the React state setters, the timer, the geolocation and classification calls, the
  console, and \<open>onResult\<close>, the Result Sink.
\<close>

datatype event =
    SetError "string option"
  | SetIsAnalyzing bool
  | SetBatchProgress "(nat \<times> nat) option"
  | SetCapturedImage string
  | SetAnalysisTimer nat
  | SetInterval
  | ClearInterval
  | GetCurrentPosition nat
  | GenerateContent GenerateContentRequest
  | ConsoleError
  | OnResult PlantAnalysis

text \<open>
  \<open>now\<close> is \<open>performance.now()\<close> in milliseconds; it moves only while the code waits
  on a promise. \<open>timerRef\<close> tells whether \<open>timerRef.current\<close> holds an interval.
\<close>

record state =
  now :: nat
  timerRef :: bool
  trace :: "event list"

definition emit :: "event list \<Rightarrow> state \<Rightarrow> state" where
  "emit es st = st\<lparr>trace := trace st @ es\<rparr>"

definition wait :: "nat \<Rightarrow> state \<Rightarrow> state" where
  "wait d st = st\<lparr>now := now st + d\<rparr>"

fun request_of :: "event \<Rightarrow> GenerateContentRequest list" where
  "request_of (GenerateContent r) = [r]"
| "request_of _ = []"

fun result_of :: "event \<Rightarrow> PlantAnalysis list" where
  "result_of (OnResult r) = [r]"
| "result_of _ = []"

fun error_of :: "event \<Rightarrow> string list" where
  "error_of (SetError (Some m)) = [m]"
| "error_of _ = []"

fun locate_of :: "event \<Rightarrow> nat list" where
  "locate_of (GetCurrentPosition t) = [t]"
| "locate_of _ = []"

definition apiCalls :: "state \<Rightarrow> GenerateContentRequest list" where
  "apiCalls st = concat (map request_of (trace st))"

definition results :: "state \<Rightarrow> PlantAnalysis list" where
  "results st = concat (map result_of (trace st))"

definition errorsShown :: "state \<Rightarrow> string list" where
  "errorsShown st = concat (map error_of (trace st))"

definition geoCalls :: "state \<Rightarrow> nat list" where
  "geoCalls st = concat (map locate_of (trace st))"

text \<open>
  What the platform and the service do is not in the repository; it is a parameter.
  \<^item> \<open>getCurrentPosition k t\<close>: the \<open>k\<close>-th call of
    \<open>navigator.geolocation.getCurrentPosition\<close>, made with \<open>{timeout: t}\<close>, invokes the
    success or the error callback after some milliseconds, or neither, ever (a browser
    calls neither while its permission prompt is left open); or there is no
    \<open>navigator.geolocation\<close> to call, and reading \<open>getCurrentPosition\<close> of
    \<open>undefined\<close> throws.
  \<^item> \<open>generateContent k r\<close>: the promise of the \<open>k\<close>-th request \<open>r\<close> is fulfilled
    with a response whose \<open>text\<close> may be \<open>undefined\<close>, or rejected with an
    \<open>Error\<close> of some message, after some milliseconds: a request over the network
    ends, with a response or with a transport error.
  \<^item> \<open>grabFrame\<close>: the frame of the video element as a data URL, \<open>None\<close> when a ref
    or the 2D context is missing.
  \<^item> \<open>Math_random_id k\<close>, \<open>Date_now k\<close>: the random id and the wall-clock time drawn
    while the \<open>k\<close>-th classification is turned into a record.
  \<^item> the messages the engine gives the \<open>SyntaxError\<close> of \<open>JSON.parse\<close> and the
    \<open>TypeError\<close> of reading a property, by its name, of \<open>null\<close> or \<open>undefined\<close>.
\<close>

datatype geo_error = PERMISSION_DENIED | POSITION_UNAVAILABLE | TIMEOUT

datatype geo_answer =
    Position real real nat
  | PositionError geo_error nat
  | NoCallback
  | NoGeolocation

datatype api_answer =
    Fulfilled "string option" nat
  | Rejected string nat

datatype source = upload | folder | video | camera

record env =
  getCurrentPosition :: "nat \<Rightarrow> nat \<Rightarrow> geo_answer"
  generateContent :: "nat \<Rightarrow> GenerateContentRequest \<Rightarrow> api_answer"
  grabFrame :: "string option"
  Math_random_id :: "nat \<Rightarrow> string"
  Date_now :: "nat \<Rightarrow> int"
  syntaxErrorMessage :: string
  typeErrorMessage :: "string \<Rightarrow> string"

text \<open>A thrown value; a \<open>TypeError\<close> with the name of the property that was read.\<close>

datatype thrown = Error string | SyntaxError | TypeError string

definition message :: "env \<Rightarrow> thrown \<Rightarrow> string" where
  "message e x =
     (case x of Error m \<Rightarrow> m | SyntaxError \<Rightarrow> syntaxErrorMessage e
              | TypeError k \<Rightarrow> typeErrorMessage e k)"

subsection \<open>\<open>analyzePlantWithContext\<close>\<close>

text \<open>
  \<open>new GoogleGenAI(...)\<close> builds the client object and calls nothing. The request is
  logged when it is issued; the clock moves by the time the service takes.
\<close>

definition analyzePlantWithContext ::
  "env \<Rightarrow> string \<Rightarrow> PlantProfile list \<Rightarrow> state \<Rightarrow> (thrown + json) \<times> state" where
  "analyzePlantWithContext e base64Image profiles st =
     (if length profiles = 0 then
        (Inl (Error ''Training database is empty. Please add plant profiles first.''), st)
      else
        (let req = request base64Image profiles;
             k = length (apiCalls st);
             st1 = emit [GenerateContent req] st
         in case generateContent e k req of
              Rejected m d \<Rightarrow> (Inl (Error m), wait d st1)
            | Fulfilled text d \<Rightarrow>
                (case text of
                   None \<Rightarrow> (Inl (Error ''Identification failed.''), wait d st1)
                 | Some t \<Rightarrow>
                     if t = [] then (Inl (Error ''Identification failed.''), wait d st1)
                     else
                       (case JSON_parse t of
                          None \<Rightarrow> (Inl SyntaxError, wait d st1)
                        | Some v \<Rightarrow> (Inr v, wait d st1)))))"

section \<open>The orchestrator (\<^verbatim>\<open>components/Analyze.tsx\<close>)\<close>

text \<open>
  A handler either returns or stays suspended at an \<open>await\<close>: the handlers have no
  timer of their own, so a promise that never settles leaves them suspended for good.
\<close>

datatype run = Returned state | Suspended state

text \<open>
  The promise around \<open>navigator.geolocation.getCurrentPosition(..., {timeout: 3000})\<close>:
  the success callback resolves it with the coordinates, the error callback with
  \<open>undefined\<close>, and nothing but a callback resolves it. The executor has no feature
  test: without \<open>navigator.geolocation\<close> it throws before any call is made, which
  rejects the promise, and \<open>await\<close> throws the \<open>TypeError\<close> on.
\<close>

datatype 'a promise = Resolved 'a state | Thrown thrown state | Pending state

definition geolocationPromise :: "env \<Rightarrow> state \<Rightarrow> (real \<times> real) option promise" where
  "geolocationPromise e st =
     (case getCurrentPosition e (length (geoCalls st)) 3000 of
        NoGeolocation \<Rightarrow> Thrown (TypeError ''getCurrentPosition'') st
      | Position la lo d \<Rightarrow> Resolved (Some (la, lo)) (wait d (emit [GetCurrentPosition 3000] st))
      | PositionError c d \<Rightarrow> Resolved None (wait d (emit [GetCurrentPosition 3000] st))
      | NoCallback \<Rightarrow> Pending (emit [GetCurrentPosition 3000] st))"

text \<open>The \<open>catch\<close> and \<open>finally\<close> blocks of \<open>captureAndAnalyze\<close>.\<close>

definition catch_block :: "env \<Rightarrow> thrown \<Rightarrow> state \<Rightarrow> state" where
  "catch_block e err st =
     emit [ConsoleError,
           SetError (Some (if message e err = [] then ''Failed to analyze plant''
                           else message e err))] st"

text \<open>
  \<open>batchProgress\<close> is the value the closure captured when the component rendered, not
  the one \<open>setBatchProgress\<close> has asked for since.
\<close>

definition finally_block :: "(nat \<times> nat) option \<Rightarrow> state \<Rightarrow> state" where
  "finally_block batchProgress st =
     (if batchProgress = None \<or> map_option fst batchProgress = map_option snd batchProgress
      then emit [SetIsAnalyzing False]
             (if timerRef st then (emit [ClearInterval] st)\<lparr>timerRef := False\<rparr> else st)
      else st)"

definition captureAndAnalyze ::
  "env \<Rightarrow> PlantProfile list \<Rightarrow> source \<Rightarrow> (nat \<times> nat) option \<Rightarrow> string option \<Rightarrow> state \<Rightarrow> run"
  where
  "captureAndAnalyze e profiles src batchProgress imageSrc st =
     (if length profiles = 0 then
        Returned (emit [SetError (Some
          ''Training Database is empty. Identification requires at least one profile.'')] st)
      else
        (let finalImage =
               (if (imageSrc = None \<or> imageSrc = Some []) \<and> (src = camera \<or> src = video)
                then grabFrame e else imageSrc)
         in case finalImage of
              None \<Rightarrow> Returned st
            | Some img \<Rightarrow>
                if img = [] then Returned st
                else
                  (let st1 = emit [SetCapturedImage img, SetIsAnalyzing True, SetError None,
                                   SetAnalysisTimer 0] st;
                       startTime = now st1;
                       st2 = (emit ((if timerRef st1 then [ClearInterval] else []) @
                                    [SetInterval]) st1)\<lparr>timerRef := True\<rparr>
                   in case geolocationPromise e st2 of
                        Pending st3 \<Rightarrow> Suspended st3
                      | Thrown err st3 \<Rightarrow>
                          Returned (finally_block batchProgress (catch_block e err st3))
                      | Resolved coords st3 \<Rightarrow>
                          (case analyzePlantWithContext e img profiles st3 of
                             (Inl err, st4) \<Rightarrow>
                               Returned (finally_block batchProgress (catch_block e err st4))
                           | (Inr result, st4) \<Rightarrow>
                               (let endTime = now st4;
                                    durationInSeconds = real (endTime - startTime) / 1000
                                in if result = JNull then
                                     Returned (finally_block batchProgress
                                                 (catch_block e (TypeError ''name'') st4))
                                   else
                                     Returned (finally_block batchProgress
                                       (emit [OnResult
                                          \<lparr>id_a = Math_random_id e (length (apiCalls st4)),
                                           name = get_prop result ''name'',
                                           scientificName = get_prop result ''scientificName'',
                                           isInvasive = get_prop result ''isInvasive'',
                                           confidence = get_prop result ''confidence'',
                                           timestamp = Date_now e (length (apiCalls st4)),
                                           analysisTime = durationInSeconds,
                                           coordinates = coords,
                                           imageUrl = img,
                                           matchedProfileId =
                                             get_prop result ''matchedProfileId'',
                                           isFavorite = None,
                                           isIncorrect = None\<rparr>] st4)))))))"

text \<open>
  What \<open>reader.readAsDataURL(file)\<close> does with a file: it loads it, and \<open>onload\<close>
  resolves the promise with the data URL, or the read fails, and nothing resolves the
  promise (the reader has no \<open>onerror\<close>).
\<close>

datatype File = Readable string | Unreadable

text \<open>
  \<open>handleFileUpload\<close>. The \<open>for\<close> loop is \<open>processFiles\<close>, with the number \<open>n\<close> of
  files, the index \<open>i\<close> and the files from \<open>i\<close> on.
\<close>

fun processFiles ::
  "env \<Rightarrow> PlantProfile list \<Rightarrow> source \<Rightarrow> (nat \<times> nat) option \<Rightarrow> nat \<Rightarrow> nat \<Rightarrow> File list \<Rightarrow>
   state \<Rightarrow> run" where
  "processFiles e profiles src batchProgress n i [] st = Returned st"
| "processFiles e profiles src batchProgress n i (Unreadable # rest) st =
     Suspended (emit [SetBatchProgress (Some (i + 1, n))] st)"
| "processFiles e profiles src batchProgress n i (Readable base64 # rest) st =
     (case captureAndAnalyze e profiles src batchProgress (Some base64)
             (emit [SetBatchProgress (Some (i + 1, n))] st) of
        Returned st' \<Rightarrow> processFiles e profiles src batchProgress n (i + 1) rest st'
      | Suspended st' \<Rightarrow> Suspended st')"


section \<open>The history (\<^verbatim>\<open>App.tsx\<close>, \<^verbatim>\<open>components/History\<close>)\<close>

definition handleAnalysisResult :: "PlantAnalysis \<Rightarrow> PlantAnalysis list \<Rightarrow> PlantAnalysis list" where
  "handleAnalysisResult result prev = result # prev"

definition clearHistory :: "PlantAnalysis list \<Rightarrow> PlantAnalysis list" where
  "clearHistory prev = []"

definition updateHistory :: "PlantAnalysis list \<Rightarrow> PlantAnalysis list \<Rightarrow> PlantAnalysis list" where
  "updateHistory newHistory prev = newHistory"

text \<open>
  \<open>handleClear\<close> of the History component, with the answer of \<open>window.confirm\<close>: the
  history after \<open>onClear\<close> and the selection.
\<close>

definition handleClear ::
  "bool \<Rightarrow> string set \<Rightarrow> PlantAnalysis list \<Rightarrow> PlantAnalysis list \<times> string set" where
  "handleClear confirmed selectedIds history =
     (if confirmed then (clearHistory history, {}) else (history, selectedIds))"

datatype bulk_action = favorite | incorrect | delete

text \<open>
  \<open>applyBulkAction\<close> with the answer \<open>confirmed\<close> of \<open>window.confirm\<close> (asked only for
  \<open>delete\<close>). It yields the history after \<open>onUpdateHistory\<close> and the selection.
\<close>

definition applyBulkAction ::
  "bulk_action \<Rightarrow> bool \<Rightarrow> string set \<Rightarrow> PlantAnalysis list \<Rightarrow> PlantAnalysis list \<times> string set"
  where
  "applyBulkAction action confirmed selectedIds history =
     (if action = delete then
        (if \<not> confirmed then (history, selectedIds)
         else (updateHistory (filter (\<lambda>item. id_a item \<notin> selectedIds) history) history, {}))
      else
        (updateHistory
           (map (\<lambda>item.
              if id_a item \<in> selectedIds then
                (if action = favorite then item\<lparr>isFavorite := Some (\<not> js_truthy (isFavorite item))\<rparr>
                 else if action = incorrect then
                   item\<lparr>isIncorrect := Some (\<not> js_truthy (isIncorrect item))\<rparr>
                 else item)
              else item) history) history,
         selectedIds))"

section \<open>Notions used to state the properties\<close>

text \<open>Where a run stands, and whether its handler has returned.\<close>

fun final :: "run \<Rightarrow> state" where
  "final (Returned st) = st"
| "final (Suspended st) = st"

fun returned :: "run \<Rightarrow> bool" where
  "returned (Returned st) = True"
| "returned (Suspended st) = False"

text \<open>
  What one answer of the platform or of the service amounts to: the coordinates a
  geolocation answer resolves the promise with and after how long; how long the service
  took; and what \<open>analyzePlantWithContext\<close> makes of the service's answer.
\<close>

fun geo_result :: "geo_answer \<Rightarrow> ((real \<times> real) option \<times> nat) option" where
  "geo_result (Position la lo d) = Some (Some (la, lo), d)"
| "geo_result (PositionError c d) = Some (None, d)"
| "geo_result NoCallback = None"
| "geo_result NoGeolocation = None"

fun api_delay :: "api_answer \<Rightarrow> nat" where
  "api_delay (Fulfilled reply d) = d"
| "api_delay (Rejected m d) = d"

fun classification :: "api_answer \<Rightarrow> thrown + json" where
  "classification (Rejected m d) = Inl (Error m)"
| "classification (Fulfilled None d) = Inl (Error ''Identification failed.'')"
| "classification (Fulfilled (Some t) d) =
     (if t = [] then Inl (Error ''Identification failed.'')
      else case JSON_parse t of None \<Rightarrow> Inl SyntaxError | Some v \<Rightarrow> Inr v)"

text \<open>
  The \<open>k\<close>-th classification call, made for image \<open>img\<close>, ends in a record: the service
  answers with text that parses to a value other than \<open>null\<close>. \<open>successes\<close> counts
  such items in a batch whose first call is the \<open>k\<close>-th.
\<close>

definition produces_record :: "env \<Rightarrow> PlantProfile list \<Rightarrow> nat \<Rightarrow> string \<Rightarrow> bool" where
  "produces_record e profiles k img =
     (case classification (generateContent e k (request img profiles)) of
        Inl err \<Rightarrow> False
      | Inr v \<Rightarrow> v \<noteq> JNull)"


text \<open>
  What is put on the screen for a thrown value (\<open>err.message || "Failed to analyze
  plant"\<close>); the error, if any, of the item whose classification call is the \<open>k\<close>-th;
  and the errors of a batch whose first call is the \<open>k\<close>-th, in order.
\<close>

definition shown :: "env \<Rightarrow> thrown \<Rightarrow> string" where
  "shown e err = (if message e err = [] then ''Failed to analyze plant'' else message e err)"

definition item_errors :: "env \<Rightarrow> PlantProfile list \<Rightarrow> nat \<Rightarrow> string \<Rightarrow> string list" where
  "item_errors e profiles k img =
     (case classification (generateContent e k (request img profiles)) of
        Inl err \<Rightarrow> [shown e err]
      | Inr v \<Rightarrow> if v = JNull then [shown e (TypeError ''name'')] else [])"


text \<open>
  The state of \<open>captureAndAnalyze\<close> when it enters \<open>try\<close>, and when the geolocation
  answer (after \<open>g\<close> ms) and the classification answer have both arrived.
\<close>

definition started :: "string \<Rightarrow> state \<Rightarrow> state" where
  "started img st =
     (emit ((if timerRef st then [ClearInterval] else []) @ [SetInterval])
        (emit [SetCapturedImage img, SetIsAnalyzing True, SetError None, SetAnalysisTimer 0] st))
     \<lparr>timerRef := True\<rparr>"

definition classified :: "env \<Rightarrow> PlantProfile list \<Rightarrow> string \<Rightarrow> nat \<Rightarrow> state \<Rightarrow> state" where
  "classified e profiles img g st =
     wait (api_delay (generateContent e (length (apiCalls st)) (request img profiles)))
       (emit [GenerateContent (request img profiles)]
          (wait g (emit [GetCurrentPosition 3000] (started img st))))"

text \<open>The history is newest first; a record without regard to its two flags.\<close>

definition newest_first :: "PlantAnalysis list \<Rightarrow> bool" where
  "newest_first h = sorted_wrt (\<lambda>a b. timestamp b \<le> timestamp a) h"

definition unflagged :: "PlantAnalysis \<Rightarrow> PlantAnalysis" where
  "unflagged item = item\<lparr>isFavorite := None, isIncorrect := None\<rparr>"

subsection \<open>Example inputs\<close>

definition rose :: PlantProfile where
  "rose = \<lparr>id_p = ''p1'', name_p = ''Rose'', scientificName_p = ''Rosa canina'',
           isInvasive_p = False, images = [''data:image/jpeg;base64,QUJD''],
           description_p = ''hedge rose'', dateCreated = 0\<rparr>"

definition photo :: string where
  "photo = ''data:image/jpeg;base64,QUJD''"

definition idle :: state where
  "idle = \<lparr>now = 0, timerRef = False, trace = []\<rparr>"

definition rose_reply :: string where
  \<open>rose_reply = ''{"name":"Rose","matchedProfileId":"p1"}''\<close>

definition foreign_reply :: string where
  \<open>foreign_reply = ''{"name":"Tulip","matchedProfileId":"zzz"}''\<close>

definition red_reply :: string where
  \<open>red_reply = ''{"name":"Rose","description":"red","matchedProfileId":"p1"}''\<close>

definition pink_reply :: string where
  \<open>pink_reply = ''{"name":"Rose","description":"pink","matchedProfileId":"p1"}''\<close>

text \<open>
  A field trip: the second position fix times out, the third request is rejected, every
  other request is answered with \<open>rose_reply\<close> after half a second.
\<close>

definition field_env :: env where
  "field_env =
     \<lparr>getCurrentPosition = (\<lambda>k t. if k = 1 then PositionError TIMEOUT t else Position 48 11 120),
      generateContent = (\<lambda>k r. if k = 2 then Rejected ''503 Service Unavailable'' 40
                               else Fulfilled (Some rose_reply) 500),
      grabFrame = None,
      Math_random_id = (\<lambda>k. replicate k (CHR ''x'')),
      Date_now = (\<lambda>k. 1700000000000 + int k),
      syntaxErrorMessage = ''Unexpected token'',
      typeErrorMessage = (\<lambda>k. ''Cannot read property '' @ k)\<rparr>"

text \<open>The service always answers with the text \<open>r\<close>, after half a second.\<close>

definition reply_env :: "string \<Rightarrow> env" where
  "reply_env r = field_env\<lparr>generateContent := (\<lambda>k q. Fulfilled (Some r) 500)\<rparr>"

text \<open>Every position fix runs into the platform's timeout.\<close>

definition timeout_env :: env where
  "timeout_env = (reply_env rose_reply)\<lparr>getCurrentPosition := (\<lambda>k t. PositionError TIMEOUT t)\<rparr>"

text \<open>The platform calls neither geolocation callback (a permission prompt left open).\<close>

definition silent_env :: env where
  "silent_env = (reply_env rose_reply)\<lparr>getCurrentPosition := (\<lambda>k t. NoCallback)\<rparr>"


text \<open>A platform without \<open>navigator.geolocation\<close>.\<close>

definition blind_env :: env where
  "blind_env = (reply_env rose_reply)\<lparr>getCurrentPosition := (\<lambda>k t. NoGeolocation)\<rparr>"

text \<open>A reply whose name is the escape \<open>\u0100\<close>.\<close>

definition accent_reply :: string where
  \<open>accent_reply = ''{"name":"'' @ [CHR 0x5C] @ ''u0100"}''\<close>

definition entry :: "string \<Rightarrow> int \<Rightarrow> PlantAnalysis" where
  "entry i t =
     \<lparr>id_a = i, name = Some (JString ''Rose''), scientificName = None, isInvasive = None,
      confidence = None, timestamp = t, analysisTime = 1 / 2, coordinates = None,
      imageUrl = photo, matchedProfileId = Some (JString ''p1''), isFavorite = None,
      isIncorrect = None\<rparr>"

section \<open>Basic facts\<close>

lemma apiCalls_simps [simp]:
  "apiCalls (emit es st) = apiCalls st @ concat (map request_of es)"
  "apiCalls (wait d st) = apiCalls st"
  "apiCalls (st\<lparr>timerRef := b\<rparr>) = apiCalls st"
  by (simp_all add: apiCalls_def emit_def wait_def)

lemma results_simps [simp]:
  "results (emit es st) = results st @ concat (map result_of es)"
  "results (wait d st) = results st"
  "results (st\<lparr>timerRef := b\<rparr>) = results st"
  by (simp_all add: results_def emit_def wait_def)

lemma errorsShown_simps [simp]:
  "errorsShown (emit es st) = errorsShown st @ concat (map error_of es)"
  "errorsShown (wait d st) = errorsShown st"
  "errorsShown (st\<lparr>timerRef := b\<rparr>) = errorsShown st"
  by (simp_all add: errorsShown_def emit_def wait_def)

lemma geoCalls_simps [simp]:
  "geoCalls (emit es st) = geoCalls st @ concat (map locate_of es)"
  "geoCalls (wait d st) = geoCalls st"
  "geoCalls (st\<lparr>timerRef := b\<rparr>) = geoCalls st"
  by (simp_all add: geoCalls_def emit_def wait_def)

lemma now_simps [simp]:
  "now (emit es st) = now st"
  "now (wait d st) = now st + d"
  by (simp_all add: emit_def wait_def)

lemma timerRef_simps [simp]:
  "timerRef (emit es st) = timerRef st"
  "timerRef (wait d st) = timerRef st"
  by (simp_all add: emit_def wait_def)

lemma finally_block_simps [simp]:
  "apiCalls (finally_block bp st) = apiCalls st"
  "results (finally_block bp st) = results st"
  "errorsShown (finally_block bp st) = errorsShown st"
  "geoCalls (finally_block bp st) = geoCalls st"
  "now (finally_block bp st) = now st"
  by (simp_all add: finally_block_def)

lemma catch_block_simps [simp]:
  "apiCalls (catch_block e err st) = apiCalls st"
  "results (catch_block e err st) = results st"
  "errorsShown (catch_block e err st) = errorsShown st @ [shown e err]"
  "geoCalls (catch_block e err st) = geoCalls st"
  "now (catch_block e err st) = now st"
  by (simp_all add: catch_block_def shown_def)

lemma started_simps [simp]:
  "apiCalls (started img st) = apiCalls st"
  "results (started img st) = results st"
  "errorsShown (started img st) = errorsShown st"
  "geoCalls (started img st) = geoCalls st"
  "now (started img st) = now st"
  by (simp_all add: started_def)

lemma classified_simps [simp]:
  "apiCalls (classified e profiles img g st) = apiCalls st @ [request img profiles]"
  "results (classified e profiles img g st) = results st"
  "errorsShown (classified e profiles img g st) = errorsShown st"
  "geoCalls (classified e profiles img g st) = geoCalls st @ [3000]"
  "now (classified e profiles img g st) =
     now st + g + api_delay (generateContent e (length (apiCalls st)) (request img profiles))"
  by (simp_all add: classified_def)

subsection \<open>The handlers, one answer at a time\<close>

lemma analyze_eq:
  assumes "profiles \<noteq> []"
  shows "analyzePlantWithContext e img profiles st =
     (classification (generateContent e (length (apiCalls st)) (request img profiles)),
      wait (api_delay (generateContent e (length (apiCalls st)) (request img profiles)))
        (emit [GenerateContent (request img profiles)] st))"
proof (cases "generateContent e (length (apiCalls st)) (request img profiles)")
  case (Fulfilled reply d)
  then show ?thesis using assms
    by (cases reply) (simp_all add: analyzePlantWithContext_def Let_def split: option.splits)
next
  case (Rejected m d)
  then show ?thesis using assms by (simp add: analyzePlantWithContext_def Let_def)
qed

lemma geolocationPromise_eq:
  "geo_result (getCurrentPosition e (length (geoCalls st)) 3000) = Some (coords, g) \<Longrightarrow>
   geolocationPromise e st = Resolved coords (wait g (emit [GetCurrentPosition 3000] st))"
  by (cases "getCurrentPosition e (length (geoCalls st)) 3000")
     (simp_all add: geolocationPromise_def)

lemma captureAndAnalyze_suspended:
  assumes "profiles \<noteq> []" "img \<noteq> []"
    and "getCurrentPosition e (length (geoCalls st)) 3000 = NoCallback"
  shows "captureAndAnalyze e profiles src bp (Some img) st =
           Suspended (emit [GetCurrentPosition 3000] (started img st))"
  using assms
  by (simp add: captureAndAnalyze_def geolocationPromise_def Let_def started_def)

lemma captureAndAnalyze_thrown:
  assumes "profiles \<noteq> []" "img \<noteq> []"
    and "getCurrentPosition e (length (geoCalls st)) 3000 = NoGeolocation"
  shows "captureAndAnalyze e profiles src bp (Some img) st =
           Returned (finally_block bp
             (catch_block e (TypeError ''getCurrentPosition'') (started img st)))"
  using assms
  by (simp add: captureAndAnalyze_def geolocationPromise_def Let_def started_def)

lemma captureAndAnalyze_eq:
  assumes "profiles \<noteq> []" "img \<noteq> []"
    and "geo_result (getCurrentPosition e (length (geoCalls st)) 3000) = Some (coords, g)"
  shows "captureAndAnalyze e profiles src bp (Some img) st =
     Returned (finally_block bp
       (case classification (generateContent e (length (apiCalls st)) (request img profiles)) of
          Inl err \<Rightarrow> catch_block e err (classified e profiles img g st)
        | Inr v \<Rightarrow>
            if v = JNull then
              catch_block e (TypeError ''name'') (classified e profiles img g st)
            else emit [OnResult
                   \<lparr>id_a = Math_random_id e (Suc (length (apiCalls st))),
                    name = get_prop v ''name'',
                    scientificName = get_prop v ''scientificName'',
                    isInvasive = get_prop v ''isInvasive'',
                    confidence = get_prop v ''confidence'',
                    timestamp = Date_now e (Suc (length (apiCalls st))),
                    analysisTime =
                      real (g + api_delay (generateContent e (length (apiCalls st))
                                             (request img profiles))) / 1000,
                    coordinates = coords,
                    imageUrl = img,
                    matchedProfileId = get_prop v ''matchedProfileId'',
                    isFavorite = None,
                    isIncorrect = None\<rparr>] (classified e profiles img g st)))"
proof -
  have g: "geolocationPromise e (started img st) =
             Resolved coords (wait g (emit [GetCurrentPosition 3000] (started img st)))"
    using assms(3) by (intro geolocationPromise_eq) simp
  show ?thesis
    using assms(1,2) g
    by (simp add: captureAndAnalyze_def analyze_eq Let_def started_def classified_def
          split: sum.splits)
qed


subsection \<open>One item, and the loop over the files\<close>

lemma item_summary:
  assumes "profiles \<noteq> []" "img \<noteq> []"
    and "geo_result (getCurrentPosition e (length (geoCalls st)) 3000) \<noteq> None"
  shows "\<exists>st'. captureAndAnalyze e profiles src bp (Some img) st = Returned st'
     \<and> apiCalls st' = apiCalls st @ [request img profiles]
     \<and> geoCalls st' = geoCalls st @ [3000]
     \<and> length (results st') =
         length (results st) + (if produces_record e profiles (length (apiCalls st)) img then 1 else 0)
     \<and> (\<not> produces_record e profiles (length (apiCalls st)) img \<longrightarrow> results st' = results st)
     \<and> errorsShown st' = errorsShown st @ item_errors e profiles (length (apiCalls st)) img"
proof -
  from assms(3) obtain coords g
    where g: "geo_result (getCurrentPosition e (length (geoCalls st)) 3000) = Some (coords, g)"
    by auto
  show ?thesis
    unfolding captureAndAnalyze_eq [OF assms(1,2) g] produces_record_def item_errors_def
    by (simp split: sum.splits)
qed










subsection \<open>The example replies, parsed\<close>

lemma parse_rose_reply:
  "JSON_parse rose_reply =
     Some (JObject [(''name'', JString ''Rose''), (''matchedProfileId'', JString ''p1'')])"
  unfolding rose_reply_def by code_simp

lemma parse_foreign_reply:
  "JSON_parse foreign_reply =
     Some (JObject [(''name'', JString ''Tulip''), (''matchedProfileId'', JString ''zzz'')])"
  unfolding foreign_reply_def by code_simp

lemma parse_red_reply:
  "JSON_parse red_reply =
     Some (JObject [(''name'', JString ''Rose''), (''description'', JString ''red''),
                    (''matchedProfileId'', JString ''p1'')])"
  unfolding red_reply_def by code_simp

lemma parse_pink_reply:
  "JSON_parse pink_reply =
     Some (JObject [(''name'', JString ''Rose''), (''description'', JString ''pink''),
                    (''matchedProfileId'', JString ''p1'')])"
  unfolding pink_reply_def by code_simp

lemma parse_empty_object: \<open>JSON_parse ''{}'' = Some (JObject [])\<close>
  by code_simp

lemma parse_open_brace: "JSON_parse ''{'' = None"
  by code_simp

lemma replies_nonempty:
  "rose_reply \<noteq> []" "foreign_reply \<noteq> []" "red_reply \<noteq> []" "pink_reply \<noteq> []"
  by (simp_all add: rose_reply_def foreign_reply_def red_reply_def pink_reply_def)

lemma parse_accent_reply:
  "JSON_parse accent_reply = Some (JObject [(''name'', JString [CHR 0xC4, CHR 0x80])])"
  unfolding accent_reply_def by code_simp

lemma field_env_produces:
  "produces_record field_env [rose] k photo = (k \<noteq> 2)"
  by (simp add: produces_record_def field_env_def parse_rose_reply replies_nonempty)


section \<open>Properties of the specification\<close>

text \<open>
  In the words of the specification, \<open>classify\<close> is \<open>analyzePlantWithContext\<close>, the
  geolocation \<open>resolve\<close> is the promise \<open>geolocationPromise\<close> inside
  \<open>captureAndAnalyze\<close>, an item is one call of \<open>captureAndAnalyze\<close>, a batch run is
  \<open>handleFileUpload\<close>, and the Result Sink is \<open>onResult\<close>, which \<open>App\<close> binds to
  \<open>handleAnalysisResult\<close>. The code has no error kinds: an error is an \<open>Error\<close> with a
  message, or the \<open>SyntaxError\<close> or \<open>TypeError\<close> of the engine. Text is in UTF-8.
\<close>




text \<open>
  C2. For every image, \<open>analyzePlantWithContext\<close> with an empty profile list throws the
  empty-database error at once and leaves the state as it was: no request is issued and
  no time passes. \<open>captureAndAnalyze\<close> does not even get that far: with an empty list
  it shows its own empty-database message and issues neither a position request nor a
  classification request.
\<close>

theorem classify_empty_database:
  "analyzePlantWithContext e base64Image [] st =
     (Inl (Error ''Training database is empty. Please add plant profiles first.''), st)
   \<and> apiCalls (snd (analyzePlantWithContext e base64Image [] st)) = apiCalls st
   \<and> (\<exists>st'. captureAndAnalyze e [] src batchProgress imageSrc st = Returned st'
          \<and> apiCalls st' = apiCalls st \<and> geoCalls st' = geoCalls st \<and> results st' = results st
          \<and> errorsShown st' = errorsShown st @
              [''Training Database is empty. Identification requires at least one profile.''])"
  by (simp add: analyzePlantWithContext_def captureAndAnalyze_def)

theorem classify_empty_database_witness:
  "analyzePlantWithContext field_env photo [] idle =
     (Inl (Error ''Training database is empty. Please add plant profiles first.''), idle)
   \<and> apiCalls (snd (analyzePlantWithContext field_env photo [] idle)) = []"
  using classify_empty_database [of field_env photo idle upload None "Some photo"]
  by (simp add: idle_def apiCalls_def)

text \<open>
  C3, as the code has it. The two waits are in sequence, not concurrent: the position
  request is awaited first, and the classification request is issued only once a
  geolocation callback has come (while none has come, no request has been issued). The
  recorded \<open>analysisTime\<close> is the time from start to end in seconds, which is the sum
  of the geolocation wait and the classification time.
\<close>

theorem waits_in_sequence:
  "(profiles \<noteq> [] \<and> img \<noteq> []
      \<and> getCurrentPosition e (length (geoCalls st)) 3000 = NoCallback \<longrightarrow>
      \<not> returned (captureAndAnalyze e profiles src bp (Some img) st)
      \<and> apiCalls (final (captureAndAnalyze e profiles src bp (Some img) st)) = apiCalls st
      \<and> geoCalls (final (captureAndAnalyze e profiles src bp (Some img) st)) =
          geoCalls st @ [3000])
   \<and> (profiles \<noteq> [] \<and> img \<noteq> []
      \<and> geo_result (getCurrentPosition e (length (geoCalls st)) 3000) = Some (coords, g)
      \<and> produces_record e profiles (length (apiCalls st)) img \<longrightarrow>
      returned (captureAndAnalyze e profiles src bp (Some img) st)
      \<and> map analysisTime (results (final (captureAndAnalyze e profiles src bp (Some img) st))) =
          map analysisTime (results st) @
          [real (g + api_delay (generateContent e (length (apiCalls st))
                                  (request img profiles))) / 1000])"
proof (intro conjI impI)
  assume h: "profiles \<noteq> [] \<and> img \<noteq> []
      \<and> getCurrentPosition e (length (geoCalls st)) 3000 = NoCallback"
  then have "captureAndAnalyze e profiles src bp (Some img) st =
           Suspended (emit [GetCurrentPosition 3000] (started img st))"
    by (intro captureAndAnalyze_suspended) simp_all
  then show "\<not> returned (captureAndAnalyze e profiles src bp (Some img) st)"
    and "apiCalls (final (captureAndAnalyze e profiles src bp (Some img) st)) = apiCalls st"
    and "geoCalls (final (captureAndAnalyze e profiles src bp (Some img) st)) =
          geoCalls st @ [3000]"
    by simp_all
next
  assume h: "profiles \<noteq> [] \<and> img \<noteq> []
      \<and> geo_result (getCurrentPosition e (length (geoCalls st)) 3000) = Some (coords, g)
      \<and> produces_record e profiles (length (apiCalls st)) img"
  then have eq: "captureAndAnalyze e profiles src bp (Some img) st =
     Returned (finally_block bp
       (case classification (generateContent e (length (apiCalls st)) (request img profiles)) of
          Inl err \<Rightarrow> catch_block e err (classified e profiles img g st)
        | Inr v \<Rightarrow>
            if v = JNull then
              catch_block e (TypeError ''name'') (classified e profiles img g st)
            else emit [OnResult
                   \<lparr>id_a = Math_random_id e (Suc (length (apiCalls st))),
                    name = get_prop v ''name'',
                    scientificName = get_prop v ''scientificName'',
                    isInvasive = get_prop v ''isInvasive'',
                    confidence = get_prop v ''confidence'',
                    timestamp = Date_now e (Suc (length (apiCalls st))),
                    analysisTime =
                      real (g + api_delay (generateContent e (length (apiCalls st))
                                             (request img profiles))) / 1000,
                    coordinates = coords,
                    imageUrl = img,
                    matchedProfileId = get_prop v ''matchedProfileId'',
                    isFavorite = None,
                    isIncorrect = None\<rparr>] (classified e profiles img g st)))"
    by (intro captureAndAnalyze_eq) simp_all
  show "returned (captureAndAnalyze e profiles src bp (Some img) st)"
    unfolding eq by simp
  from h show "map analysisTime (results (final (captureAndAnalyze e profiles src bp (Some img) st))) =
          map analysisTime (results st) @
          [real (g + api_delay (generateContent e (length (apiCalls st))
                                  (request img profiles))) / 1000]"
    unfolding eq produces_record_def by (simp split: sum.splits)
qed

theorem waits_in_sequence_witness:
  "[rose] \<noteq> [] \<and> photo \<noteq> []
   \<and> geo_result (getCurrentPosition field_env (length (geoCalls idle)) 3000) =
       Some (Some (48, 11), 120)
   \<and> produces_record field_env [rose] (length (apiCalls idle)) photo
   \<and> map analysisTime (results (final (captureAndAnalyze field_env [rose] upload None
                                          (Some photo) idle))) = [31 / 50]
   \<and> getCurrentPosition silent_env (length (geoCalls idle)) 3000 = NoCallback
   \<and> apiCalls (final (captureAndAnalyze silent_env [rose] upload None (Some photo) idle)) = []"
proof -
  have idle: "apiCalls idle = []" "results idle = []" "geoCalls idle = []"
    by (simp_all add: idle_def apiCalls_def results_def geoCalls_def)
  have a: "[rose] \<noteq> [] \<and> photo \<noteq> []" by (simp add: photo_def)
  have g: "geo_result (getCurrentPosition field_env (length (geoCalls idle)) 3000) =
       Some (Some (48, 11), 120)"
    by (simp add: idle field_env_def)
  have p: "produces_record field_env [rose] (length (apiCalls idle)) photo"
    by (simp add: field_env_produces idle)
  have d: "api_delay (generateContent field_env 0 (request photo [rose])) = 500"
    by (simp add: field_env_def)
  have s: "getCurrentPosition silent_env (length (geoCalls idle)) 3000 = NoCallback"
    by (simp add: silent_env_def)
  from waits_in_sequence [of "[rose]" photo field_env idle upload None "Some (48, 11)" 120]
       waits_in_sequence [of "[rose]" photo silent_env idle upload None "Some (48, 11)" 120]
       a g p s
  show ?thesis by (simp add: idle d)
qed

text \<open>
  C3 as stated fails: after a position fix that times out at 3000 ms, a classification
  that takes 500 ms is recorded with 3.5 s, not with about 0.5 s; and while no
  geolocation callback has come, the classification request has not been launched.
\<close>

theorem concurrent_waits_counterexample:
  "api_delay (generateContent timeout_env 0 (request photo [rose])) = 500
   \<and> map analysisTime (results (final (captureAndAnalyze timeout_env [rose] upload None
                                          (Some photo) idle))) = [7 / 2]
   \<and> \<not> returned (captureAndAnalyze silent_env [rose] upload None (Some photo) idle)
   \<and> apiCalls (final (captureAndAnalyze silent_env [rose] upload None (Some photo) idle)) = []"
proof -
  have idle: "apiCalls idle = []" "results idle = []" "geoCalls idle = []"
    by (simp_all add: idle_def apiCalls_def results_def geoCalls_def)
  have 1: "captureAndAnalyze silent_env [rose] upload None (Some photo) idle =
             Suspended (emit [GetCurrentPosition 3000] (started photo idle))"
    by (rule captureAndAnalyze_suspended) (simp_all add: photo_def silent_env_def)
  have g: "geo_result (getCurrentPosition timeout_env (length (geoCalls idle)) 3000) =
             Some (None, 3000)"
    by (simp add: timeout_env_def)
  have c: "classification (generateContent timeout_env k (request photo [rose])) =
             Inr (JObject [(''name'', JString ''Rose''), (''matchedProfileId'', JString ''p1'')])"
    for k
    by (simp add: timeout_env_def reply_env_def field_env_def parse_rose_reply replies_nonempty)
  have d: "api_delay (generateContent timeout_env k (request photo [rose])) = 500" for k
    by (simp add: timeout_env_def reply_env_def field_env_def)
  have n: "[rose] \<noteq> []" "photo \<noteq> []" by (simp_all add: photo_def)
  have 2: "map analysisTime (results (final (captureAndAnalyze timeout_env [rose] upload None
                                          (Some photo) idle))) = [7 / 2]"
    unfolding captureAndAnalyze_eq [OF n g]
    by (simp add: c d idle)
  show ?thesis using 1 2 d by (simp add: idle)
qed

text \<open>
  C4, as the code has it. With a non-empty profile list, an outcome that
  \<open>analyzePlantWithContext\<close> returns is the service's response text, parsed and passed on
  unchanged. Its \<open>matchedProfileId\<close> is therefore whatever the response carries: it is
  the id of a supplied profile or \<open>unknown\<close> exactly when the response says so, which
  the prompt asks for and the client does not check.
\<close>

theorem classify_returns_reply:
  "profiles \<noteq> [] \<and> fst (analyzePlantWithContext e base64Image profiles st) = Inr v \<longrightarrow>
     (\<exists>t d. generateContent e (length (apiCalls st)) (request base64Image profiles) =
               Fulfilled (Some t) d
            \<and> t \<noteq> [] \<and> JSON_parse t = Some v)"
proof
  assume h: "profiles \<noteq> [] \<and> fst (analyzePlantWithContext e base64Image profiles st) = Inr v"
  then have c: "classification (generateContent e (length (apiCalls st))
                                  (request base64Image profiles)) = Inr v"
    using analyze_eq [of profiles e base64Image st] by simp
  show "\<exists>t d. generateContent e (length (apiCalls st)) (request base64Image profiles) =
               Fulfilled (Some t) d
            \<and> t \<noteq> [] \<and> JSON_parse t = Some v"
  proof (cases "generateContent e (length (apiCalls st)) (request base64Image profiles)")
    case (Fulfilled reply d)
    with c show ?thesis
      by (cases reply) (auto split: if_splits option.splits)
  next
    case (Rejected m d)
    with c show ?thesis by simp
  qed
qed

theorem classify_returns_reply_witness:
  "[rose] \<noteq> []
   \<and> fst (analyzePlantWithContext (reply_env rose_reply) photo [rose] idle) =
       Inr (JObject [(''name'', JString ''Rose''), (''matchedProfileId'', JString ''p1'')])
   \<and> (\<exists>t d. generateContent (reply_env rose_reply) (length (apiCalls idle)) (request photo [rose]) =
               Fulfilled (Some t) d
            \<and> t \<noteq> []
            \<and> JSON_parse t =
                Some (JObject [(''name'', JString ''Rose''),
                               (''matchedProfileId'', JString ''p1'')]))"
proof -
  have a: "fst (analyzePlantWithContext (reply_env rose_reply) photo [rose] idle) =
       Inr (JObject [(''name'', JString ''Rose''), (''matchedProfileId'', JString ''p1'')])"
    by (simp add: analyze_eq reply_env_def field_env_def parse_rose_reply replies_nonempty)
  from classify_returns_reply
         [of "[rose]" "reply_env rose_reply" photo idle
             "JObject [(''name'', JString ''Rose''), (''matchedProfileId'', JString ''p1'')]"]
       a
  show ?thesis by simp
qed

text \<open>
  C4 as stated fails: with the one profile \<open>p1\<close> supplied, a response naming the
  profile \<open>zzz\<close> is returned as the outcome, and \<open>zzz\<close> is neither a supplied id nor
  \<open>unknown\<close>.
\<close>

theorem foreign_id_counterexample:
  "fst (analyzePlantWithContext (reply_env foreign_reply) photo [rose] idle) =
     Inr (JObject [(''name'', JString ''Tulip''), (''matchedProfileId'', JString ''zzz'')])
   \<and> get_prop (JObject [(''name'', JString ''Tulip''), (''matchedProfileId'', JString ''zzz'')])
        ''matchedProfileId'' = Some (JString ''zzz'')
   \<and> ''zzz'' \<notin> set (map id_p [rose]) \<and> ''zzz'' \<noteq> ''unknown''"
  by (simp add: analyze_eq reply_env_def field_env_def parse_foreign_reply replies_nonempty
        rose_def)

text \<open>
  C5, as the code has it. \<open>analyzePlantWithContext\<close> fails with the error
  \<open>Identification failed.\<close> when the response has no text or an empty one, and with the
  \<open>SyntaxError\<close> of \<open>JSON.parse\<close> when the text is not JSON. Text that is JSON is
  returned as the outcome as it is, escapes resolved: the client does not compare it
  with the schema.
\<close>

theorem malformed_response:
  "profiles \<noteq> []
   \<and> generateContent e (length (apiCalls st)) (request base64Image profiles) = Fulfilled reply d
   \<longrightarrow>
     (reply = None \<or> reply = Some [] \<longrightarrow>
        fst (analyzePlantWithContext e base64Image profiles st) =
          Inl (Error ''Identification failed.''))
     \<and> (\<forall>t. reply = Some t \<and> t \<noteq> [] \<and> JSON_parse t = None \<longrightarrow>
          fst (analyzePlantWithContext e base64Image profiles st) = Inl SyntaxError)
     \<and> (\<forall>t v. reply = Some t \<and> t \<noteq> [] \<and> JSON_parse t = Some v \<longrightarrow>
          fst (analyzePlantWithContext e base64Image profiles st) = Inr v)"
  by (auto simp: analyze_eq)

theorem malformed_response_witness:
  "[rose] \<noteq> []
   \<and> generateContent (reply_env ''{'') (length (apiCalls idle)) (request photo [rose]) =
       Fulfilled (Some ''{'') 500
   \<and> ''{'' \<noteq> [] \<and> JSON_parse ''{'' = None
   \<and> fst (analyzePlantWithContext (reply_env ''{'') photo [rose] idle) = Inl SyntaxError
   \<and> generateContent (reply_env []) (length (apiCalls idle)) (request photo [rose]) =
       Fulfilled (Some []) 500
   \<and> fst (analyzePlantWithContext (reply_env []) photo [rose] idle) =
       Inl (Error ''Identification failed.'')
   \<and> generateContent (reply_env rose_reply) (length (apiCalls idle)) (request photo [rose]) =
       Fulfilled (Some rose_reply) 500
   \<and> fst (analyzePlantWithContext (reply_env rose_reply) photo [rose] idle) =
       Inr (JObject [(''name'', JString ''Rose''), (''matchedProfileId'', JString ''p1'')])
   \<and> generateContent (reply_env accent_reply) (length (apiCalls idle)) (request photo [rose]) =
       Fulfilled (Some accent_reply) 500
   \<and> fst (analyzePlantWithContext (reply_env accent_reply) photo [rose] idle) =
       Inr (JObject [(''name'', JString [CHR 0xC4, CHR 0x80])])"
proof -
  have accent: "accent_reply \<noteq> []" by (simp add: accent_reply_def)
  note p = parse_open_brace parse_rose_reply replies_nonempty parse_accent_reply accent
  have g: "generateContent (reply_env r) (length (apiCalls idle)) (request photo [rose]) =
       Fulfilled (Some r) 500" for r
    by (simp add: reply_env_def)
  from malformed_response [of "[rose]" "reply_env ''{''" idle photo "Some ''{''" 500]
       malformed_response [of "[rose]" "reply_env []" idle photo "Some []" 500]
       malformed_response [of "[rose]" "reply_env rose_reply" idle photo "Some rose_reply" 500]
       malformed_response [of "[rose]" "reply_env accent_reply" idle photo "Some accent_reply" 500]
       p g
  show ?thesis by simp
qed

text \<open>
  C5 as stated fails: the response \<open>{}\<close> has none of the required fields, and it is
  returned as the outcome.
\<close>

theorem missing_fields_counterexample:
  \<open>fst (analyzePlantWithContext (reply_env ''{}'') photo [rose] idle) = Inr (JObject [])
   \<and> get_prop (JObject []) ''name'' = None
   \<and> get_prop (JObject []) ''matchedProfileId'' = None\<close>
  by (simp add: analyze_eq reply_env_def parse_empty_object)

text \<open>
  C6, as the code has it. When the platform calls the geolocation error callback, for
  whatever reason (permission denied, position unavailable, timeout), the promise
  resolves with no coordinates, no error reaches the caller, and the item goes on to its
  classification request; when it calls the success callback, the promise resolves with
  the coordinates. Where the capability is absent (no \<open>navigator.geolocation\<close>), the
  promise is rejected with a \<open>TypeError\<close>, which does reach the caller: the item shows
  that error, makes no classification request and yields no record. The timeout of
  3000 ms is passed to the platform and the code has no timer of its own: the promise
  resolves at the moment the platform calls back, and never if the platform calls
  neither callback, in which case the item never completes.
\<close>

theorem geolocation_absorbed:
  "(getCurrentPosition e (length (geoCalls st)) 3000 = PositionError c d \<longrightarrow>
      geolocationPromise e st = Resolved None (wait d (emit [GetCurrentPosition 3000] st))
      \<and> (profiles \<noteq> [] \<and> img \<noteq> [] \<longrightarrow>
           returned (captureAndAnalyze e profiles src bp (Some img) st)
           \<and> apiCalls (final (captureAndAnalyze e profiles src bp (Some img) st)) =
               apiCalls st @ [request img profiles]
           \<and> errorsShown (final (captureAndAnalyze e profiles src bp (Some img) st)) =
               errorsShown st @ item_errors e profiles (length (apiCalls st)) img))
   \<and> (getCurrentPosition e (length (geoCalls st)) 3000 = Position la lo d \<longrightarrow>
      geolocationPromise e st =
        Resolved (Some (la, lo)) (wait d (emit [GetCurrentPosition 3000] st)))
   \<and> (getCurrentPosition e (length (geoCalls st)) 3000 = NoGeolocation \<longrightarrow>
      geolocationPromise e st = Thrown (TypeError ''getCurrentPosition'') st
      \<and> (profiles \<noteq> [] \<and> img \<noteq> [] \<longrightarrow>
           returned (captureAndAnalyze e profiles src bp (Some img) st)
           \<and> apiCalls (final (captureAndAnalyze e profiles src bp (Some img) st)) = apiCalls st
           \<and> geoCalls (final (captureAndAnalyze e profiles src bp (Some img) st)) = geoCalls st
           \<and> results (final (captureAndAnalyze e profiles src bp (Some img) st)) = results st
           \<and> errorsShown (final (captureAndAnalyze e profiles src bp (Some img) st)) =
               errorsShown st @ [shown e (TypeError ''getCurrentPosition'')]))
   \<and> (\<forall>coords st'. geolocationPromise e st = Resolved coords st' \<longrightarrow>
        geoCalls st' = geoCalls st @ [3000]
        \<and> (\<exists>g. geo_result (getCurrentPosition e (length (geoCalls st)) 3000) = Some (coords, g)
              \<and> now st' = now st + g))
   \<and> (getCurrentPosition e (length (geoCalls st)) 3000 = NoCallback \<longrightarrow>
        geolocationPromise e st = Pending (emit [GetCurrentPosition 3000] st)
        \<and> (profiles \<noteq> [] \<and> img \<noteq> [] \<longrightarrow>
             \<not> returned (captureAndAnalyze e profiles src bp (Some img) st)))"
proof -
  have 1: "geolocationPromise e st = Resolved None (wait d (emit [GetCurrentPosition 3000] st))"
    if "getCurrentPosition e (length (geoCalls st)) 3000 = PositionError c d"
    using that by (simp add: geolocationPromise_def)
  have 2: "returned (captureAndAnalyze e profiles src bp (Some img) st)
           \<and> apiCalls (final (captureAndAnalyze e profiles src bp (Some img) st)) =
               apiCalls st @ [request img profiles]
           \<and> errorsShown (final (captureAndAnalyze e profiles src bp (Some img) st)) =
               errorsShown st @ item_errors e profiles (length (apiCalls st)) img"
    if "getCurrentPosition e (length (geoCalls st)) 3000 = PositionError c d"
      and "profiles \<noteq> [] \<and> img \<noteq> []"
  proof -
    have "geo_result (getCurrentPosition e (length (geoCalls st)) 3000) \<noteq> None"
      using that(1) by simp
    from item_summary [OF _ _ this, of profiles img src bp] that(2)
    show ?thesis by auto
  qed
  have 3: "geolocationPromise e st =
        Resolved (Some (la, lo)) (wait d (emit [GetCurrentPosition 3000] st))"
    if "getCurrentPosition e (length (geoCalls st)) 3000 = Position la lo d"
    using that by (simp add: geolocationPromise_def)
  have 4: "geolocationPromise e st = Thrown (TypeError ''getCurrentPosition'') st"
    if "getCurrentPosition e (length (geoCalls st)) 3000 = NoGeolocation"
    using that by (simp add: geolocationPromise_def)
  have 5: "returned (captureAndAnalyze e profiles src bp (Some img) st)
           \<and> apiCalls (final (captureAndAnalyze e profiles src bp (Some img) st)) = apiCalls st
           \<and> geoCalls (final (captureAndAnalyze e profiles src bp (Some img) st)) = geoCalls st
           \<and> results (final (captureAndAnalyze e profiles src bp (Some img) st)) = results st
           \<and> errorsShown (final (captureAndAnalyze e profiles src bp (Some img) st)) =
               errorsShown st @ [shown e (TypeError ''getCurrentPosition'')]"
    if "getCurrentPosition e (length (geoCalls st)) 3000 = NoGeolocation"
      and "profiles \<noteq> [] \<and> img \<noteq> []"
  proof -
    have "captureAndAnalyze e profiles src bp (Some img) st =
           Returned (finally_block bp
             (catch_block e (TypeError ''getCurrentPosition'') (started img st)))"
      using that by (intro captureAndAnalyze_thrown) simp_all
    then show ?thesis by simp
  qed
  have 6: "geoCalls st' = geoCalls st @ [3000]
        \<and> (\<exists>g. geo_result (getCurrentPosition e (length (geoCalls st)) 3000) = Some (coords, g)
              \<and> now st' = now st + g)"
    if "geolocationPromise e st = Resolved coords st'" for coords st'
    using that
    by (cases "getCurrentPosition e (length (geoCalls st)) 3000")
       (auto simp: geolocationPromise_def)
  have 7: "geolocationPromise e st = Pending (emit [GetCurrentPosition 3000] st)"
    if "getCurrentPosition e (length (geoCalls st)) 3000 = NoCallback"
    using that by (simp add: geolocationPromise_def)
  have 8: "\<not> returned (captureAndAnalyze e profiles src bp (Some img) st)"
    if "getCurrentPosition e (length (geoCalls st)) 3000 = NoCallback"
      and "profiles \<noteq> [] \<and> img \<noteq> []"
  proof -
    have "captureAndAnalyze e profiles src bp (Some img) st =
           Suspended (emit [GetCurrentPosition 3000] (started img st))"
      using that by (intro captureAndAnalyze_suspended) simp_all
    then show ?thesis by simp
  qed
  show ?thesis
    using 1 2 3 4 5 6 7 8 by (intro conjI impI allI) blast+
qed

theorem geolocation_absorbed_witness:
  "getCurrentPosition timeout_env (length (geoCalls idle)) 3000 = PositionError TIMEOUT 3000
   \<and> geolocationPromise timeout_env idle =
       Resolved None \<lparr>now = 3000, timerRef = False, trace = [GetCurrentPosition 3000]\<rparr>
   \<and> [rose] \<noteq> [] \<and> photo \<noteq> []
   \<and> apiCalls (final (captureAndAnalyze timeout_env [rose] upload None (Some photo) idle)) =
       [request photo [rose]]
   \<and> errorsShown (final (captureAndAnalyze timeout_env [rose] upload None (Some photo) idle)) = []
   \<and> getCurrentPosition field_env (length (geoCalls idle)) 3000 = Position 48 11 120
   \<and> geolocationPromise field_env idle =
       Resolved (Some (48, 11))
         \<lparr>now = 120, timerRef = False, trace = [GetCurrentPosition 3000]\<rparr>
   \<and> geoCalls \<lparr>now = 120, timerRef = False, trace = [GetCurrentPosition 3000]\<rparr> =
       geoCalls idle @ [3000]
   \<and> getCurrentPosition blind_env (length (geoCalls idle)) 3000 = NoGeolocation
   \<and> geolocationPromise blind_env idle = Thrown (TypeError ''getCurrentPosition'') idle
   \<and> returned (captureAndAnalyze blind_env [rose] upload None (Some photo) idle)
   \<and> apiCalls (final (captureAndAnalyze blind_env [rose] upload None (Some photo) idle)) = []
   \<and> errorsShown (final (captureAndAnalyze blind_env [rose] upload None (Some photo) idle)) =
       [''Cannot read property getCurrentPosition'']
   \<and> getCurrentPosition silent_env (length (geoCalls idle)) 3000 = NoCallback
   \<and> geolocationPromise silent_env idle =
       Pending \<lparr>now = 0, timerRef = False, trace = [GetCurrentPosition 3000]\<rparr>
   \<and> \<not> returned (captureAndAnalyze silent_env [rose] upload None (Some photo) idle)"
proof -
  have idle: "geoCalls idle = []" "apiCalls idle = []" "errorsShown idle = []"
    by (simp_all add: idle_def geoCalls_def apiCalls_def errorsShown_def)
  have n: "[rose] \<noteq> [] \<and> photo \<noteq> []" by (simp add: photo_def)
  have t: "getCurrentPosition timeout_env (length (geoCalls idle)) 3000 = PositionError TIMEOUT 3000"
    by (simp add: timeout_env_def)
  have f: "getCurrentPosition field_env (length (geoCalls idle)) 3000 = Position 48 11 120"
    by (simp add: field_env_def idle)
  have bl: "getCurrentPosition blind_env (length (geoCalls idle)) 3000 = NoGeolocation"
    by (simp add: blind_env_def)
  have s: "getCurrentPosition silent_env (length (geoCalls idle)) 3000 = NoCallback"
    by (simp add: silent_env_def)
  have te: "item_errors timeout_env [rose] (length (apiCalls idle)) photo = []"
    by (simp add: item_errors_def timeout_env_def reply_env_def parse_rose_reply
          replies_nonempty)
  have sh: "shown blind_env (TypeError ''getCurrentPosition'') =
              ''Cannot read property getCurrentPosition''"
    by (simp add: shown_def message_def blind_env_def reply_env_def field_env_def)
  have w: "wait d (emit [GetCurrentPosition 3000] idle) =
             \<lparr>now = d, timerRef = False, trace = [GetCurrentPosition 3000]\<rparr>" for d
    by (simp add: idle_def wait_def emit_def)
  have w0: "emit [GetCurrentPosition 3000] idle =
             \<lparr>now = 0, timerRef = False, trace = [GetCurrentPosition 3000]\<rparr>"
    by (simp add: idle_def emit_def)
  note ga = geolocation_absorbed
  have a: "geolocationPromise timeout_env idle =
             Resolved None (wait 3000 (emit [GetCurrentPosition 3000] idle))"
    "apiCalls (final (captureAndAnalyze timeout_env [rose] upload None (Some photo) idle)) =
       apiCalls idle @ [request photo [rose]]"
    "errorsShown (final (captureAndAnalyze timeout_env [rose] upload None (Some photo) idle)) =
       errorsShown idle @ item_errors timeout_env [rose] (length (apiCalls idle)) photo"
    using ga [THEN conjunct1, THEN mp, OF t, of "[rose]" photo upload None] n
    by simp_all
  have b: "geolocationPromise field_env idle =
             Resolved (Some (48, 11)) (wait 120 (emit [GetCurrentPosition 3000] idle))"
    by (rule ga [THEN conjunct2, THEN conjunct1, THEN mp, OF f])
  have c: "geolocationPromise blind_env idle = Thrown (TypeError ''getCurrentPosition'') idle"
    "returned (captureAndAnalyze blind_env [rose] upload None (Some photo) idle)"
    "apiCalls (final (captureAndAnalyze blind_env [rose] upload None (Some photo) idle)) =
       apiCalls idle"
    "errorsShown (final (captureAndAnalyze blind_env [rose] upload None (Some photo) idle)) =
       errorsShown idle @ [shown blind_env (TypeError ''getCurrentPosition'')]"
    using ga [THEN conjunct2, THEN conjunct2, THEN conjunct1, THEN mp, OF bl,
            of "[rose]" photo upload None] n
    by simp_all
  have g: "geoCalls \<lparr>now = 120, timerRef = False, trace = [GetCurrentPosition 3000]\<rparr> =
             geoCalls idle @ [3000]"
    using ga [THEN conjunct2, THEN conjunct2, THEN conjunct2, THEN conjunct1, rule_format,
            of field_env idle "Some (48, 11)"
               "\<lparr>now = 120, timerRef = False, trace = [GetCurrentPosition 3000]\<rparr>"]
          b w
    by simp
  have d: "geolocationPromise silent_env idle = Pending (emit [GetCurrentPosition 3000] idle)"
    "\<not> returned (captureAndAnalyze silent_env [rose] upload None (Some photo) idle)"
    using ga [THEN conjunct2, THEN conjunct2, THEN conjunct2, THEN conjunct2, THEN mp, OF s,
            of "[rose]" photo upload None] n
    by simp_all
  have a': "geolocationPromise timeout_env idle =
       Resolved None \<lparr>now = 3000, timerRef = False, trace = [GetCurrentPosition 3000]\<rparr>"
    "apiCalls (final (captureAndAnalyze timeout_env [rose] upload None (Some photo) idle)) =
       [request photo [rose]]"
    "errorsShown (final (captureAndAnalyze timeout_env [rose] upload None (Some photo) idle)) = []"
    using a te by (simp_all only: w idle append_Nil append_Nil2)
  have b': "geolocationPromise field_env idle =
       Resolved (Some (48, 11))
         \<lparr>now = 120, timerRef = False, trace = [GetCurrentPosition 3000]\<rparr>"
    using b by (simp only: w)
  have c': "apiCalls (final (captureAndAnalyze blind_env [rose] upload None (Some photo) idle)) = []"
    "errorsShown (final (captureAndAnalyze blind_env [rose] upload None (Some photo) idle)) =
       [''Cannot read property getCurrentPosition'']"
    using c(3,4) by (simp_all only: sh idle append_Nil)
  have d': "geolocationPromise silent_env idle =
       Pending \<lparr>now = 0, timerRef = False, trace = [GetCurrentPosition 3000]\<rparr>"
    using d(1) by (simp only: w0)
  show ?thesis
    using t f bl s n a' b' c(1,2) c' g d' d(2) by (intro conjI; blast)
qed

text \<open>
  C6 as stated fails, twice. Against a platform that calls neither geolocation callback,
  the promise is still pending and \<open>captureAndAnalyze\<close> is suspended on it, at 3000 ms as
  at any other time; nothing in the code ends the wait. And where the geolocation
  capability is absent, the operation does not return the absent value: it throws, the
  item shows the error and is not classified.
\<close>

theorem unanswered_geolocation_counterexample:
  "geolocationPromise silent_env idle =
     Pending \<lparr>now = 0, timerRef = False, trace = [GetCurrentPosition 3000]\<rparr>
   \<and> captureAndAnalyze silent_env [rose] upload None (Some photo) idle =
       Suspended \<lparr>now = 0, timerRef = True,
                  trace = [SetCapturedImage photo, SetIsAnalyzing True, SetError None,
                           SetAnalysisTimer 0, SetInterval, GetCurrentPosition 3000]\<rparr>
   \<and> geolocationPromise blind_env idle = Thrown (TypeError ''getCurrentPosition'') idle
   \<and> captureAndAnalyze blind_env [rose] upload None (Some photo) idle =
       Returned \<lparr>now = 0, timerRef = False,
                 trace = [SetCapturedImage photo, SetIsAnalyzing True, SetError None,
                          SetAnalysisTimer 0, SetInterval, ConsoleError,
                          SetError (Some ''Cannot read property getCurrentPosition''),
                          ClearInterval, SetIsAnalyzing False]\<rparr>"
proof -
  have 1: "geolocationPromise silent_env idle =
             Pending \<lparr>now = 0, timerRef = False, trace = [GetCurrentPosition 3000]\<rparr>"
    by (simp add: geolocationPromise_def silent_env_def emit_def idle_def)
  have 2: "captureAndAnalyze silent_env [rose] upload None (Some photo) idle =
             Suspended (emit [GetCurrentPosition 3000] (started photo idle))"
    by (rule captureAndAnalyze_suspended) (simp_all add: photo_def silent_env_def)
  have 3: "emit [GetCurrentPosition 3000] (started photo idle) =
             \<lparr>now = 0, timerRef = True,
              trace = [SetCapturedImage photo, SetIsAnalyzing True, SetError None,
                       SetAnalysisTimer 0, SetInterval, GetCurrentPosition 3000]\<rparr>"
    by (simp add: started_def emit_def idle_def)
  have 4: "geolocationPromise blind_env idle = Thrown (TypeError ''getCurrentPosition'') idle"
    by (simp add: geolocationPromise_def blind_env_def)
  have 5: "captureAndAnalyze blind_env [rose] upload None (Some photo) idle =
             Returned (finally_block None
               (catch_block blind_env (TypeError ''getCurrentPosition'') (started photo idle)))"
    by (rule captureAndAnalyze_thrown) (simp_all add: photo_def blind_env_def)
  have 6: "finally_block None
             (catch_block blind_env (TypeError ''getCurrentPosition'') (started photo idle)) =
           \<lparr>now = 0, timerRef = False,
            trace = [SetCapturedImage photo, SetIsAnalyzing True, SetError None,
                     SetAnalysisTimer 0, SetInterval, ConsoleError,
                     SetError (Some ''Cannot read property getCurrentPosition''),
                     ClearInterval, SetIsAnalyzing False]\<rparr>"
    by (simp add: finally_block_def catch_block_def started_def emit_def idle_def message_def
          blind_env_def reply_env_def field_env_def)
  show ?thesis
    using 1 2 3 4 5 6 by simp
qed

text \<open>
  C7. The request that \<open>analyzePlantWithContext\<close> issues carries, besides the image to
  identify, the manifest of the profiles it was given, and nothing else of them. The
  manifest has one entry per profile, in order, holding that profile's id, common
  name, scientific name, invasive flag and the number of its sample images. It holds no
  image data: replacing the content of every reference image (by any function \<open>f\<close>)
  changes neither the manifest nor the request sent to the service.
\<close>

theorem manifest_without_images:
  "length (profileManifest profiles) = length profiles
   \<and> (\<forall>i < length profiles.
        profileManifest profiles ! i =
          \<lparr>id_m = id_p (profiles ! i), name_m = name_p (profiles ! i),
           scientificName_m = scientificName_p (profiles ! i),
           isInvasive_m = isInvasive_p (profiles ! i),
           imageCount = length (images (profiles ! i))\<rparr>)
   \<and> request base64Image profiles =
       \<lparr>model = ''gemini-3-flash-preview'', mimeType = ''image/jpeg'',
        inlineData = imageData base64Image, manifest = profileManifest profiles\<rparr>
   \<and> (profiles \<noteq> [] \<longrightarrow>
        apiCalls (snd (analyzePlantWithContext e base64Image profiles st)) =
          apiCalls st @ [request base64Image profiles]
        \<and> map manifest (apiCalls (snd (analyzePlantWithContext e base64Image profiles st))) =
          map manifest (apiCalls st) @ [profileManifest profiles])
   \<and> profileManifest (map (\<lambda>p. p\<lparr>images := map f (images p)\<rparr>) profiles) =
       profileManifest profiles
   \<and> request base64Image (map (\<lambda>p. p\<lparr>images := map f (images p)\<rparr>) profiles) =
       request base64Image profiles"
proof -
  have sent: "apiCalls (snd (analyzePlantWithContext e base64Image profiles st)) =
                apiCalls st @ [request base64Image profiles]" if "profiles \<noteq> []"
    using that by (simp add: analyze_eq)
  have m: "manifest (request base64Image profiles) = profileManifest profiles"
    by (simp add: request_def)
  show ?thesis
    using sent m by (simp add: profileManifest_def request_def)
qed

theorem manifest_without_images_witness:
  "(0::nat) < length [rose]
   \<and> profileManifest [rose] ! 0 =
       \<lparr>id_m = ''p1'', name_m = ''Rose'', scientificName_m = ''Rosa canina'',
        isInvasive_m = False, imageCount = 1\<rparr>
   \<and> [rose] \<noteq> []
   \<and> map manifest (apiCalls (snd (analyzePlantWithContext field_env photo [rose] idle))) =
       [[\<lparr>id_m = ''p1'', name_m = ''Rose'', scientificName_m = ''Rosa canina'',
          isInvasive_m = False, imageCount = 1\<rparr>]]
   \<and> map inlineData (apiCalls (snd (analyzePlantWithContext field_env photo [rose] idle))) =
       [''QUJD'']
   \<and> request photo [rose\<lparr>images := [''data:image/png;base64,WFla'']\<rparr>] = request photo [rose]"
proof -
  have idle: "apiCalls idle = []" by (simp add: idle_def apiCalls_def)
  have d: "imageData photo = ''QUJD''" by (simp add: imageData_def photo_def)
  have m: "profileManifest [rose] =
             [\<lparr>id_m = ''p1'', name_m = ''Rose'', scientificName_m = ''Rosa canina'',
               isInvasive_m = False, imageCount = 1\<rparr>]"
    by (simp add: profileManifest_def rose_def)
  have r: "map (\<lambda>p. p\<lparr>images := map (\<lambda>x. ''data:image/png;base64,WFla'') (images p)\<rparr>) [rose] =
             [rose\<lparr>images := [''data:image/png;base64,WFla'']\<rparr>]"
    by (simp add: rose_def)
  note t = manifest_without_images
             [of "[rose]" photo field_env idle "\<lambda>x. ''data:image/png;base64,WFla''"]
  have 1: "apiCalls (snd (analyzePlantWithContext field_env photo [rose] idle)) =
             apiCalls idle @ [request photo [rose]]"
    and 2: "map manifest (apiCalls (snd (analyzePlantWithContext field_env photo [rose] idle))) =
             map manifest (apiCalls idle) @ [profileManifest [rose]]"
    using t by simp_all
  have 3: "request photo [rose] =
             \<lparr>model = ''gemini-3-flash-preview'', mimeType = ''image/jpeg'',
              inlineData = imageData photo, manifest = profileManifest [rose]\<rparr>"
    using t by blast
  have 4: "request photo [rose\<lparr>images := [''data:image/png;base64,WFla'']\<rparr>] =
             request photo [rose]"
    using t unfolding r by blast
  show ?thesis
    unfolding 1 2 by (simp add: idle m 3 4 d)
qed

text \<open>
  C8, as the code has it. When the classification of an item succeeds, the record \<open>r\<close>
  handed to the Result Sink carries the outcome's name, scientific name, invasive flag,
  confidence and matched profile id (not its description, for which a record has no
  field), the elapsed time, the coordinates or their absence, and the source image; its
  two user flags are left unset, which reads as false. It is handed over before
  \<open>captureAndAnalyze\<close> returns: in a batch, the record of a file is in the sink when the
  loop goes on to the files after it.
\<close>

theorem record_handed_over:
  "profiles \<noteq> [] \<and> img \<noteq> []
   \<and> geo_result (getCurrentPosition e (length (geoCalls st)) 3000) = Some (coords, g)
   \<and> classification (generateContent e (length (apiCalls st)) (request img profiles)) = Inr v
   \<and> v \<noteq> JNull
   \<and> r = \<lparr>id_a = Math_random_id e (Suc (length (apiCalls st))),
           name = get_prop v ''name'',
           scientificName = get_prop v ''scientificName'',
           isInvasive = get_prop v ''isInvasive'',
           confidence = get_prop v ''confidence'',
           timestamp = Date_now e (Suc (length (apiCalls st))),
           analysisTime =
             real (g + api_delay (generateContent e (length (apiCalls st))
                                    (request img profiles))) / 1000,
           coordinates = coords,
           imageUrl = img,
           matchedProfileId = get_prop v ''matchedProfileId'',
           isFavorite = None,
           isIncorrect = None\<rparr>
   \<longrightarrow>
     returned (captureAndAnalyze e profiles src bp (Some img) st)
     \<and> results (final (captureAndAnalyze e profiles src bp (Some img) st)) = results st @ [r]
     \<and> \<not> js_truthy (isFavorite r) \<and> \<not> js_truthy (isIncorrect r)
     \<and> (\<exists>st1. captureAndAnalyze e profiles src bp (Some img)
                  (emit [SetBatchProgress (Some (i + 1, n))] st) = Returned st1
              \<and> results st1 = results st @ [r]
              \<and> processFiles e profiles src bp n i (Readable img # rest) st =
                  processFiles e profiles src bp n (i + 1) rest st1)"
proof
  let ?st0 = "emit [SetBatchProgress (Some (i + 1, n))] st"
  let ?r = "\<lparr>id_a = Math_random_id e (Suc (length (apiCalls st))),
           name = get_prop v ''name'',
           scientificName = get_prop v ''scientificName'',
           isInvasive = get_prop v ''isInvasive'',
           confidence = get_prop v ''confidence'',
           timestamp = Date_now e (Suc (length (apiCalls st))),
           analysisTime =
             real (g + api_delay (generateContent e (length (apiCalls st))
                                    (request img profiles))) / 1000,
           coordinates = coords,
           imageUrl = img,
           matchedProfileId = get_prop v ''matchedProfileId'',
           isFavorite = None,
           isIncorrect = None\<rparr>"
  assume h: "profiles \<noteq> [] \<and> img \<noteq> []
   \<and> geo_result (getCurrentPosition e (length (geoCalls st)) 3000) = Some (coords, g)
   \<and> classification (generateContent e (length (apiCalls st)) (request img profiles)) = Inr v
   \<and> v \<noteq> JNull \<and> r = ?r"
  then have p: "profiles \<noteq> []" and i: "img \<noteq> []"
    and g: "geo_result (getCurrentPosition e (length (geoCalls st)) 3000) = Some (coords, g)"
    and c: "classification (generateContent e (length (apiCalls st)) (request img profiles)) = Inr v"
    and v: "v \<noteq> JNull" and r: "r = ?r"
    by simp_all
  have g0: "geo_result (getCurrentPosition e (length (geoCalls ?st0)) 3000) = Some (coords, g)"
    using g by simp
  have 1: "captureAndAnalyze e profiles src bp (Some img) st =
             Returned (finally_block bp (emit [OnResult ?r] (classified e profiles img g st)))"
    unfolding captureAndAnalyze_eq [OF p i g] using c v by simp
  have 2: "captureAndAnalyze e profiles src bp (Some img) ?st0 =
             Returned (finally_block bp (emit [OnResult ?r] (classified e profiles img g ?st0)))"
    unfolding captureAndAnalyze_eq [OF p i g0] using c v by simp
  let ?st1 = "finally_block bp (emit [OnResult ?r] (classified e profiles img g ?st0))"
  have 3: "processFiles e profiles src bp n i (Readable img # rest) st =
             processFiles e profiles src bp n (i + 1) rest ?st1"
    by (simp only: processFiles.simps 2 run.case)
  have 4: "results ?st1 = results st @ [r]"
    by (simp add: r)
  have 5: "returned (captureAndAnalyze e profiles src bp (Some img) st)"
    "results (final (captureAndAnalyze e profiles src bp (Some img) st)) = results st @ [r]"
    unfolding 1 by (simp_all add: r)
  have 6: "\<not> js_truthy (isFavorite r)" "\<not> js_truthy (isIncorrect r)"
    by (simp_all add: r js_truthy_def)
  from 2 3 4 have 7: "\<exists>st1. captureAndAnalyze e profiles src bp (Some img)
                  (emit [SetBatchProgress (Some (i + 1, n))] st) = Returned st1
              \<and> results st1 = results st @ [r]
              \<and> processFiles e profiles src bp n i (Readable img # rest) st =
                  processFiles e profiles src bp n (i + 1) rest st1"
    by blast
  show "returned (captureAndAnalyze e profiles src bp (Some img) st)
     \<and> results (final (captureAndAnalyze e profiles src bp (Some img) st)) = results st @ [r]
     \<and> \<not> js_truthy (isFavorite r) \<and> \<not> js_truthy (isIncorrect r)
     \<and> (\<exists>st1. captureAndAnalyze e profiles src bp (Some img)
                  (emit [SetBatchProgress (Some (i + 1, n))] st) = Returned st1
              \<and> results st1 = results st @ [r]
              \<and> processFiles e profiles src bp n i (Readable img # rest) st =
                  processFiles e profiles src bp n (i + 1) rest st1)"
    using 5 6 7 by (intro conjI)
qed

theorem record_handed_over_witness:
  "[rose] \<noteq> [] \<and> photo \<noteq> []
   \<and> geo_result (getCurrentPosition (reply_env red_reply) (length (geoCalls idle)) 3000) =
       Some (Some (48, 11), 120)
   \<and> classification (generateContent (reply_env red_reply) (length (apiCalls idle))
                       (request photo [rose])) =
       Inr (JObject [(''name'', JString ''Rose''), (''description'', JString ''red''),
                     (''matchedProfileId'', JString ''p1'')])
   \<and> results (final (captureAndAnalyze (reply_env red_reply) [rose] upload None
                       (Some photo) idle)) =
       [\<lparr>id_a = ''x'', name = Some (JString ''Rose''), scientificName = None,
         isInvasive = None, confidence = None, timestamp = 1700000000001,
         analysisTime = 31 / 50, coordinates = Some (48, 11), imageUrl = photo,
         matchedProfileId = Some (JString ''p1''), isFavorite = None, isIncorrect = None\<rparr>]"
proof -
  let ?v = "JObject [(''name'', JString ''Rose''), (''description'', JString ''red''),
                     (''matchedProfileId'', JString ''p1'')]"
  let ?r = "\<lparr>id_a = ''x'', name = Some (JString ''Rose''), scientificName = None,
         isInvasive = None, confidence = None, timestamp = 1700000000001,
         analysisTime = 31 / 50, coordinates = Some (48, 11), imageUrl = photo,
         matchedProfileId = Some (JString ''p1''), isFavorite = None, isIncorrect = None\<rparr>"
  have idle: "apiCalls idle = []" "results idle = []" "geoCalls idle = []"
    by (simp_all add: idle_def apiCalls_def results_def geoCalls_def)
  have a: "[rose] \<noteq> [] \<and> photo \<noteq> []" by (simp add: photo_def)
  have g: "geo_result (getCurrentPosition (reply_env red_reply) (length (geoCalls idle)) 3000) =
       Some (Some (48, 11), 120)"
    by (simp add: idle reply_env_def field_env_def)
  have c: "classification (generateContent (reply_env red_reply) (length (apiCalls idle))
                       (request photo [rose])) = Inr ?v"
    by (simp add: reply_env_def parse_red_reply replies_nonempty)
  have r: "?r = \<lparr>id_a = Math_random_id (reply_env red_reply) (Suc (length (apiCalls idle))),
           name = get_prop ?v ''name'',
           scientificName = get_prop ?v ''scientificName'',
           isInvasive = get_prop ?v ''isInvasive'',
           confidence = get_prop ?v ''confidence'',
           timestamp = Date_now (reply_env red_reply) (Suc (length (apiCalls idle))),
           analysisTime =
             real (120 + api_delay (generateContent (reply_env red_reply) (length (apiCalls idle))
                                    (request photo [rose]))) / 1000,
           coordinates = Some (48, 11),
           imageUrl = photo,
           matchedProfileId = get_prop ?v ''matchedProfileId'',
           isFavorite = None,
           isIncorrect = None\<rparr>"
    by (simp add: idle reply_env_def field_env_def)
  have "results (final (captureAndAnalyze (reply_env red_reply) [rose] upload None
                       (Some photo) idle)) = results idle @ [?r]"
    using record_handed_over
            [of "[rose]" photo "reply_env red_reply" idle "Some (48, 11)" 120 ?v ?r upload None]
          a g c r
    by blast
  then show ?thesis using a g c by (simp add: idle)
qed

text \<open>
  C8 as stated fails: two outcomes that differ in their description lead to the same
  record, so the record does not carry that outcome field; and the two flags of the
  record are absent rather than set to \<open>false\<close>.
\<close>

theorem dropped_description_counterexample:
  "fst (analyzePlantWithContext (reply_env red_reply) photo [rose] idle) \<noteq>
     fst (analyzePlantWithContext (reply_env pink_reply) photo [rose] idle)
   \<and> results (final (captureAndAnalyze (reply_env red_reply) [rose] upload None
                       (Some photo) idle)) =
       results (final (captureAndAnalyze (reply_env pink_reply) [rose] upload None
                         (Some photo) idle))
   \<and> map isFavorite (results (final (captureAndAnalyze (reply_env red_reply) [rose] upload None
                                        (Some photo) idle))) = [None]
   \<and> map isIncorrect (results (final (captureAndAnalyze (reply_env red_reply) [rose] upload None
                                         (Some photo) idle))) = [None]
   \<and> None \<noteq> Some False"
proof -
  have idle: "apiCalls idle = []" "results idle = []" "geoCalls idle = []"
    by (simp_all add: idle_def apiCalls_def results_def geoCalls_def)
  have n: "[rose] \<noteq> []" "photo \<noteq> []" by (simp_all add: photo_def)
  have g: "geo_result (getCurrentPosition (reply_env x) (length (geoCalls idle)) 3000) =
       Some (Some (48, 11), 120)" for x
    by (simp add: idle reply_env_def field_env_def)
  have c: "classification (generateContent (reply_env x) k q) =
             (if x = [] then Inl (Error ''Identification failed.'')
              else case JSON_parse x of None \<Rightarrow> Inl SyntaxError | Some v \<Rightarrow> Inr v)" for x k q
    by (simp add: reply_env_def)
  have d: "api_delay (generateContent (reply_env x) k q) = 500" for x k q
    by (simp add: reply_env_def)
  have m: "Math_random_id (reply_env x) = Math_random_id field_env"
    "Date_now (reply_env x) = Date_now field_env" for x
    by (simp_all add: reply_env_def)
  have 1: "fst (analyzePlantWithContext (reply_env red_reply) photo [rose] idle) \<noteq>
     fst (analyzePlantWithContext (reply_env pink_reply) photo [rose] idle)"
    by (simp add: analyze_eq c parse_red_reply parse_pink_reply replies_nonempty)
  show ?thesis
    using 1
    unfolding captureAndAnalyze_eq [OF n g]
    by (simp add: c d m parse_red_reply parse_pink_reply replies_nonempty idle)
qed

text \<open>
  C9. Accepting a record puts it in front of the history. Marking the selected records as
  favorite or as incorrect leaves every record in its place (only flags change); bulk
  deletion leaves the records that survive in the order they had; clearing leaves none
  (or, when the user declines, the history as it was).
  Hence a history that is newest first stays so under the three bulk operations and
  under clearing, and under accepting a record that is at least as new as those present.
\<close>

theorem history_keeps_order:
  "handleAnalysisResult r h = r # h
   \<and> map unflagged (fst (applyBulkAction favorite c sel h)) = map unflagged h
   \<and> map unflagged (fst (applyBulkAction incorrect c sel h)) = map unflagged h
   \<and> fst (applyBulkAction delete True sel h) = filter (\<lambda>item. id_a item \<notin> sel) h
   \<and> subseq (fst (applyBulkAction delete c sel h)) h
   \<and> clearHistory h = []
   \<and> fst (handleClear c sel h) = (if c then [] else h)
   \<and> (newest_first h \<longrightarrow>
        newest_first (fst (applyBulkAction favorite c sel h))
        \<and> newest_first (fst (applyBulkAction incorrect c sel h))
        \<and> newest_first (fst (applyBulkAction delete c sel h))
        \<and> newest_first (clearHistory h)
        \<and> newest_first (fst (handleClear c sel h))
        \<and> ((\<forall>x \<in> set h. timestamp x \<le> timestamp r) \<longrightarrow>
             newest_first (handleAnalysisResult r h)))"
proof -
  have toggle: "map unflagged (fst (applyBulkAction a c sel h)) = map unflagged h"
    if "a \<noteq> delete" for a
    using that by (cases a) (auto simp: applyBulkAction_def updateHistory_def unflagged_def)
  have stamps: "map timestamp (fst (applyBulkAction a c sel h)) = map timestamp h"
    if "a \<noteq> delete" for a
    using that by (cases a) (auto simp: applyBulkAction_def updateHistory_def)
  have del: "fst (applyBulkAction delete b sel h) =
               (if b then filter (\<lambda>item. id_a item \<notin> sel) h else h)" for b
    by (simp add: applyBulkAction_def updateHistory_def)
  have by_stamps: "newest_first xs = sorted_wrt (\<lambda>a b. b \<le> a) (map timestamp xs)" for xs
    by (simp add: newest_first_def sorted_wrt_map)
  have 1: "handleAnalysisResult r h = r # h" by (simp add: handleAnalysisResult_def)
  have 2: "map unflagged (fst (applyBulkAction favorite c sel h)) = map unflagged h"
    by (rule toggle) simp
  have 3: "map unflagged (fst (applyBulkAction incorrect c sel h)) = map unflagged h"
    by (rule toggle) simp
  have 4: "fst (applyBulkAction delete True sel h) = filter (\<lambda>item. id_a item \<notin> sel) h"
    by (simp add: del)
  have 5: "subseq (fst (applyBulkAction delete c sel h)) h"
    by (simp add: del)
  have 6: "clearHistory h = []" by (simp add: clearHistory_def)
  have 7: "newest_first (fst (applyBulkAction a c sel h))" if "newest_first h" "a \<noteq> delete" for a
    using that by (simp add: by_stamps stamps)
  have 8: "newest_first (fst (applyBulkAction delete c sel h))" if "newest_first h"
    using that by (simp add: del newest_first_def sorted_wrt_filter)
  have 9: "newest_first (handleAnalysisResult r h)"
    if "newest_first h" "\<forall>x \<in> set h. timestamp x \<le> timestamp r"
    using that by (simp add: handleAnalysisResult_def newest_first_def)
  have 10: "newest_first (clearHistory h)" by (simp add: clearHistory_def newest_first_def)
  have 11: "fst (handleClear c sel h) = (if c then [] else h)"
    by (simp add: handleClear_def clearHistory_def)
  have 12: "newest_first (fst (handleClear c sel h))" if "newest_first h"
    using that by (simp add: 11 newest_first_def)
  show ?thesis using 1 2 3 4 5 6 7 8 9 10 11 12 by simp
qed

theorem history_keeps_order_witness:
  "newest_first [entry ''b'' 20, entry ''a'' 10]
   \<and> timestamp (entry ''b'' 20) \<le> timestamp (entry ''c'' 30)
   \<and> timestamp (entry ''a'' 10) \<le> timestamp (entry ''c'' 30)
   \<and> newest_first (handleAnalysisResult (entry ''c'' 30) [entry ''b'' 20, entry ''a'' 10])
   \<and> newest_first (fst (applyBulkAction favorite False {''a''} [entry ''b'' 20, entry ''a'' 10]))
   \<and> fst (applyBulkAction delete True {''b''} [entry ''b'' 20, entry ''a'' 10]) = [entry ''a'' 10]"
proof -
  have h: "newest_first [entry ''b'' 20, entry ''a'' 10]"
    by (simp add: newest_first_def entry_def)
  have n: "\<forall>x \<in> set [entry ''b'' 20, entry ''a'' 10]. timestamp x \<le> timestamp (entry ''c'' 30)"
    by (simp add: entry_def)
  have d: "filter (\<lambda>item. id_a item \<notin> {''b''}) [entry ''b'' 20, entry ''a'' 10] = [entry ''a'' 10]"
    by (simp add: entry_def)
  from history_keeps_order
         [of "entry ''c'' 30" "[entry ''b'' 20, entry ''a'' 10]" False "{''a''}"]
       history_keeps_order
         [of "entry ''c'' 30" "[entry ''b'' 20, entry ''a'' 10]" True "{''b''}"]
       h n d
  show ?thesis by simp
qed

text \<open>
  C10. The bulk actions favorite and incorrect keep the length of the history, leave
  every record whose id is not selected as it is, and on a record whose id is selected
  change the one flag, to the negation of its truth value, and nothing else. The
  selection is kept.
\<close>

theorem bulk_toggle_frame:
  "length (fst (applyBulkAction favorite c sel h)) = length h
   \<and> length (fst (applyBulkAction incorrect c sel h)) = length h
   \<and> snd (applyBulkAction favorite c sel h) = sel
   \<and> snd (applyBulkAction incorrect c sel h) = sel
   \<and> (\<forall>i < length h.
        fst (applyBulkAction favorite c sel h) ! i =
          (if id_a (h ! i) \<in> sel
           then (h ! i)\<lparr>isFavorite := Some (\<not> js_truthy (isFavorite (h ! i)))\<rparr> else h ! i)
        \<and> fst (applyBulkAction incorrect c sel h) ! i =
          (if id_a (h ! i) \<in> sel
           then (h ! i)\<lparr>isIncorrect := Some (\<not> js_truthy (isIncorrect (h ! i)))\<rparr> else h ! i))"
  by (simp add: applyBulkAction_def updateHistory_def)

theorem bulk_toggle_frame_witness:
  "(1::nat) < length [entry ''b'' 20, entry ''a'' 10]
   \<and> fst (applyBulkAction favorite False {''a''} [entry ''b'' 20, entry ''a'' 10]) ! 1 =
       (entry ''a'' 10)\<lparr>isFavorite := Some True\<rparr>
   \<and> fst (applyBulkAction favorite False {''a''} [entry ''b'' 20, entry ''a'' 10]) ! 0 =
       entry ''b'' 20
   \<and> fst (applyBulkAction incorrect False {''a''}
            (fst (applyBulkAction incorrect False {''a''} [entry ''b'' 20, entry ''a'' 10]))) ! 1 =
       (entry ''a'' 10)\<lparr>isIncorrect := Some False\<rparr>"
proof -
  let ?h = "[entry ''b'' 20, entry ''a'' 10]"
  let ?h1 = "fst (applyBulkAction incorrect False {''a''} ?h)"
  have l: "(1::nat) < length ?h" "(0::nat) < length ?h" by simp_all
  have ids: "id_a (?h ! 1) \<in> {''a''}" "id_a (?h ! 0) \<notin> {''a''}"
    by (simp_all add: entry_def)
  have f: "isFavorite (?h ! 1) = None" "isIncorrect (?h ! 1) = None"
    by (simp_all add: entry_def)
  from bulk_toggle_frame [of False "{''a''}" ?h] l
  have a: "fst (applyBulkAction favorite False {''a''} ?h) ! 1 =
             (if id_a (?h ! 1) \<in> {''a''}
              then (?h ! 1)\<lparr>isFavorite := Some (\<not> js_truthy (isFavorite (?h ! 1)))\<rparr> else ?h ! 1)"
    and b: "fst (applyBulkAction favorite False {''a''} ?h) ! 0 =
             (if id_a (?h ! 0) \<in> {''a''}
              then (?h ! 0)\<lparr>isFavorite := Some (\<not> js_truthy (isFavorite (?h ! 0)))\<rparr> else ?h ! 0)"
    and c: "?h1 ! 1 =
             (if id_a (?h ! 1) \<in> {''a''}
              then (?h ! 1)\<lparr>isIncorrect := Some (\<not> js_truthy (isIncorrect (?h ! 1)))\<rparr> else ?h ! 1)"
    and len: "length ?h1 = length ?h"
    by blast+
  from bulk_toggle_frame [of False "{''a''}" ?h1] l len
  have d: "fst (applyBulkAction incorrect False {''a''} ?h1) ! 1 =
             (if id_a (?h1 ! 1) \<in> {''a''}
              then (?h1 ! 1)\<lparr>isIncorrect := Some (\<not> js_truthy (isIncorrect (?h1 ! 1)))\<rparr>
              else ?h1 ! 1)"
    by simp
  show ?thesis
    using a b c d l ids f by (simp add: js_truthy_def)
qed

end
